theory Spec2Isabelle
  imports Main "HOL-Library.Sublist" "HOL-Library.AList"
begin

section \<open>Python values, exceptions and the tracer's collaborators\<close>

text \<open>
  The development embeds \<^verbatim>\<open>lumigo_tracer/sync_http/sync_hook.py\<close>.
  Python exceptions are values: \<open>Exception m\<close> stands for an instance of a class deriving
  from \<^verbatim>\<open>Exception\<close> (the string names the class), \<open>BaseException m\<close> for an instance
  of a class that derives from \<^verbatim>\<open>BaseException\<close> only (\<^verbatim>\<open>SystemExit\<close>,
  \<^verbatim>\<open>KeyboardInterrupt\<close>, \<^verbatim>\<open>GeneratorExit\<close>), which \<^verbatim>\<open>except Exception\<close> lets through.
\<close>

datatype exn = Exception string | BaseException string

text \<open>
  \<^verbatim>\<open>io.BytesIO\<close>: the buffer, the read position and whether the stream was closed.
  Every operation on a closed stream raises \<^verbatim>\<open>ValueError\<close>.
\<close>

record bytesio =
  buf :: string
  pos :: nat
  closed :: bool

definition tell :: "bytesio \<Rightarrow> exn + nat" where
  "tell io = (if closed io then Inl (Exception ''ValueError'') else Inr (pos io))"

definition read :: "bytesio \<Rightarrow> nat \<Rightarrow> exn + (string \<times> bytesio)" where
  "read io n =
     (if closed io then Inl (Exception ''ValueError'')
      else let chunk = take n (drop (pos io) (buf io))
           in Inr (chunk, io\<lparr>pos := pos io + length chunk\<rparr>))"

definition seek :: "bytesio \<Rightarrow> nat \<Rightarrow> exn + bytesio" where
  "seek io p = (if closed io then Inl (Exception ''ValueError'') else Inr (io\<lparr>pos := p\<rparr>))"

text \<open>The Python values that reach the wrappers.\<close>

datatype pyval =
    PyNone
  | PyStr string
  | PyBytes string
  | PyBytesIO bytesio
  | PyDict "(string \<times> pyval) list"
  | PyObject "(string \<times> pyval) list"

type_synonym kwargs = "(string \<times> pyval) list"

text \<open>\<^verbatim>\<open>getattr(obj, name, default)\<close>: only objects carry attributes in this model.\<close>

fun getattr :: "pyval \<Rightarrow> string \<Rightarrow> pyval \<Rightarrow> pyval" where
  "getattr (PyObject attrs) name dflt = (case map_of attrs name of Some v \<Rightarrow> v | None \<Rightarrow> dflt)"
| "getattr _ name dflt = dflt"

text \<open>
  The variable \<^verbatim>\<open>headers\<close> of \<^verbatim>\<open>_request_wrapper\<close> holds \<^verbatim>\<open>None\<close>, then the raw header
  block, then the parsed \<^verbatim>\<open>HTTPMessage\<close> (an ordered list of fields).
\<close>

datatype hdrs = HNone | HBytes string | HMsg "(string \<times> string) list"

text \<open>\<^verbatim>\<open>HttpRequest(host=, method=, uri=, headers=, body=)\<close>; \<^verbatim>\<open>headers\<close> defaults to \<^verbatim>\<open>None\<close>.\<close>

record http_request =
  req_host :: "string option"
  req_method :: "string option"
  req_uri :: "string option"
  req_headers :: hdrs
  req_body :: pyval

text \<open>
  The calls the module makes into its collaborators (\<^verbatim>\<open>SpansContainer\<close>, \<^verbatim>\<open>wrapt\<close>, the
  logger). A call of a method of \<^verbatim>\<open>SpansContainer.get_span()\<close> is one entry.
\<close>

datatype call =
    Create_span "pyval list"
  | Span_start
  | Span_end pyval
  | Add_exception_event exn
  | Add_request_event http_request
  | Add_unparsed_request http_request
  | Update_event_end_time
  | Get_patched_root
  | Wrap_function_wrapper string string string
  | Logger_debug string
  | Logger_exception string exn

text \<open>
  The process-wide state: the module global \<^verbatim>\<open>already_wrapped\<close>, \<^verbatim>\<open>builtins.print\<close>
  (the stack of request ids whose prefixing lambda is installed; empty for the original
  \<^verbatim>\<open>print\<close>), and the collaborator calls that returned, oldest first.
\<close>

record state =
  already_wrapped :: bool
  builtins_print :: "pyval list"
  calls :: "call list"

text \<open>
  What the module reads from outside: \<^verbatim>\<open>os.environ\<close>, \<^verbatim>\<open>is_enhanced_print()\<close>,
  \<^verbatim>\<open>is_aws_environment()\<close>, the value \<^verbatim>\<open>get_patched_root()\<close> returns, the standard
  library's \<^verbatim>\<open>http.client.parse_headers\<close> (applied to the bytes of the stream it is
  given), and for each collaborator call whether it raises.
\<close>

record env =
  environ :: "string \<rightharpoonup> string"
  is_enhanced_print :: "exn + bool"
  is_aws_environment :: bool
  patched_root :: string
  parse_headers :: "string \<Rightarrow> exn + (string \<times> string) list"
  raises :: "call \<Rightarrow> exn option"

text \<open>
  A statement sequence acting on the state, or on a frame that extends the state with the
  local variables of a function: it ends normally or raises.
\<close>

type_synonym 'a step = "'a state_scheme \<Rightarrow> exn option \<times> 'a state_scheme"

text \<open>A Python callable: arguments in, a value or an exception out, acting on the state.\<close>

type_synonym pyfun = "pyval list \<Rightarrow> kwargs \<Rightarrow> state \<Rightarrow> (exn + pyval) \<times> state"

definition collab :: "env \<Rightarrow> call \<Rightarrow> 'a step" where
  "collab e c s =
     (case raises e c of
        Some x \<Rightarrow> (Some x, s)
      | None \<Rightarrow> (None, s\<lparr>calls := calls s @ [c]\<rparr>))"

text \<open>Logging never raises.\<close>

definition logger :: "call \<Rightarrow> 'a state_scheme \<Rightarrow> 'a state_scheme" where
  "logger c s = s\<lparr>calls := calls s @ [c]\<rparr>"

definition seq :: "'a step \<Rightarrow> 'a step \<Rightarrow> 'a step" where
  "seq f g s = (case f s of (None, s') \<Rightarrow> g s' | (Some x, s') \<Rightarrow> (Some x, s'))"

text \<open>
  Modelled from the spec: the context manager \<^verbatim>\<open>lumigo_safe_execute\<close> of
  \<^verbatim>\<open>lumigo_tracer.utils\<close>, which is not among the sources. An exception raised in its
  block is caught and logged; what the block did before raising stays done.
\<close>

definition lumigo_safe_execute :: "string \<Rightarrow> 'a step \<Rightarrow> 'a step" where
  "lumigo_safe_execute part_name blk s =
     (case blk s of
        (Some (Exception m), s') \<Rightarrow> (None, logger (Logger_exception part_name (Exception m)) s')
      | r \<Rightarrow> r)"

section \<open>Lower case\<close>

definition lower_char :: "char \<Rightarrow> char" where
  "lower_char c =
     (case map_of (zip ''ABCDEFGHIJKLMNOPQRSTUVWXYZ'' ''abcdefghijklmnopqrstuvwxyz'') c of
        Some d \<Rightarrow> d
      | None \<Rightarrow> c)"

definition py_lower :: "string \<Rightarrow> string" where
  "py_lower s = map lower_char s"

section \<open>Installing the interception points\<close>

definition wrap_function_wrapper :: "env \<Rightarrow> string \<Rightarrow> string \<Rightarrow> string \<Rightarrow> unit step" where
  "wrap_function_wrapper e module name wrapper = collab e (Wrap_function_wrapper module name wrapper)"

definition wrap_block :: "env \<Rightarrow> unit step" where
  "wrap_block e =
     seq (\<lambda>s. (None, logger (Logger_debug ''wrapping the http request'') s))
    (seq (wrap_function_wrapper e ''http.client'' ''HTTPConnection.send'' ''_request_wrapper'')
    (seq (wrap_function_wrapper e ''botocore.awsrequest'' ''AWSRequest.__init__'' ''_putheader_wrapper'')
    (seq (wrap_function_wrapper e ''http.client'' ''HTTPConnection.getresponse'' ''_response_wrapper'')
    (seq (wrap_function_wrapper e ''http.client'' ''HTTPResponse.read'' ''_read_wrapper'')
         (\<lambda>s. (None, s\<lparr>already_wrapped := True\<rparr>))))))"

definition wrap_http_calls :: "env \<Rightarrow> unit step" where
  "wrap_http_calls e s =
     (if \<not> already_wrapped s then lumigo_safe_execute ''wrap http calls'' (wrap_block e) s
      else (None, s))"

section \<open>The invocation lifecycle\<close>

definition KILL_SWITCH :: string where
  "KILL_SWITCH = ''LUMIGO_SWITCH_OFF''"

definition environ_get :: "env \<Rightarrow> string \<Rightarrow> string \<Rightarrow> string" where
  "environ_get e k dflt = (case environ e k of Some v \<Rightarrow> v | None \<Rightarrow> dflt)"

text \<open>
  Lines 123 to 132: everything the outer \<^verbatim>\<open>try\<close> runs before \<^verbatim>\<open>executed = True\<close>.
\<close>

definition enhance_print :: "env \<Rightarrow> pyval list \<Rightarrow> unit step" where
  "enhance_print e args s =
     (case is_enhanced_print e of
        Inl x \<Rightarrow> (Some x, s)
      | Inr b \<Rightarrow>
          (if b \<and> length args \<ge> 2
           then (None, s\<lparr>builtins_print :=
                   getattr (args ! 1) ''aws_request_id'' (PyStr '''') # builtins_print s\<rparr>)
           else (None, s)))"

definition pre_run :: "env \<Rightarrow> pyval list \<Rightarrow> unit step" where
  "pre_run e args =
     seq (enhance_print e args)
    (seq (collab e (Create_span args))
    (seq (collab e Span_start)
         (wrap_http_calls e)))"

text \<open>
  The \<^verbatim>\<open>finally\<close> clause (lines 141 and 142): \<^verbatim>\<open>end(ret_val)\<close>, then
  \<^verbatim>\<open>builtins.print = local_print\<close>, which is not reached when \<^verbatim>\<open>end\<close> raises.
\<close>

definition finally_clause :: "env \<Rightarrow> pyval list \<Rightarrow> pyval \<Rightarrow> unit step" where
  "finally_clause e local_print ret_val =
     seq (collab e (Span_end ret_val)) (\<lambda>s. (None, s\<lparr>builtins_print := local_print\<rparr>))"

text \<open>
  The inner \<^verbatim>\<open>try\<close> (lines 133 to 143). An exception raised in the \<^verbatim>\<open>except\<close> or the
  \<^verbatim>\<open>finally\<close> clause replaces the one being handled.
\<close>

definition run :: "env \<Rightarrow> pyfun \<Rightarrow> pyval list \<Rightarrow> pyval list \<Rightarrow> kwargs \<Rightarrow> state \<Rightarrow> (exn + pyval) \<times> state" where
  "run e func local_print args kw s =
     (case func args kw s of
        (Inr ret_val, s1) \<Rightarrow>
          (case finally_clause e local_print ret_val s1 of
             (Some x, s2) \<Rightarrow> (Inl x, s2)
           | (None, s2) \<Rightarrow> (Inr ret_val, s2))
      | (Inl (Exception m), s1) \<Rightarrow>
          (case collab e (Add_exception_event (Exception m)) s1 of
             (Some x, s2) \<Rightarrow>
               (case finally_clause e local_print PyNone s2 of
                  (Some y, s3) \<Rightarrow> (Inl y, s3)
                | (None, s3) \<Rightarrow> (Inl x, s3))
           | (None, s2) \<Rightarrow>
               (case finally_clause e local_print PyNone s2 of
                  (Some y, s3) \<Rightarrow> (Inl y, s3)
                | (None, s3) \<Rightarrow> (Inl (Exception m), s3)))
      | (Inl (BaseException m), s1) \<Rightarrow>
          (case finally_clause e local_print PyNone s1 of
             (Some y, s2) \<Rightarrow> (Inl y, s2)
           | (None, s2) \<Rightarrow> (Inl (BaseException m), s2)))"

text \<open>
  \<^verbatim>\<open>lambda_wrapper\<close> (lines 114 to 150); \<open>traced\<close> is its body from line 118 on. The
  outer handler runs the function itself when \<^verbatim>\<open>executed\<close> is still false, and
  re-raises otherwise.
\<close>

definition traced :: "env \<Rightarrow> pyfun \<Rightarrow> pyfun" where
  "traced e func args kw s =
     (case pre_run e args s of
        (Some (Exception m), s1) \<Rightarrow>
          func args kw (logger (Logger_exception ''exception in the wrapper'' (Exception m)) s1)
      | (Some (BaseException m), s1) \<Rightarrow> (Inl (BaseException m), s1)
      | (None, s1) \<Rightarrow> run e func (builtins_print s) args kw s1)"

definition lambda_wrapper :: "env \<Rightarrow> pyfun \<Rightarrow> pyfun" where
  "lambda_wrapper e func args kw s =
     (if py_lower (environ_get e KILL_SWITCH '''') = ''true'' then func args kw s
      else traced e func args kw s)"

section \<open>Python bytes and string operations\<close>

definition CRLF :: string where
  "CRLF = [CHR 0x0D, CHR 0x0A]"

definition BODY_HEADER_SPLITTER :: string where
  "BODY_HEADER_SPLITTER = CRLF @ CRLF"

definition FLAGS_HEADER_SPLITTER :: string where
  "FLAGS_HEADER_SPLITTER = CRLF"

definition MAX_READ_SIZE :: nat where
  "MAX_READ_SIZE = 1024"

text \<open>\<^verbatim>\<open>sep in data\<close> on bytes.\<close>

fun bytes_contains :: "string \<Rightarrow> string \<Rightarrow> bool" where
  "bytes_contains sep [] = (sep = [])"
| "bytes_contains sep (c # cs) = (prefix sep (c # cs) \<or> bytes_contains sep cs)"

text \<open>
  \<^verbatim>\<open>data.split(sep, 1)\<close>: one piece when \<^verbatim>\<open>sep\<close> does not occur, otherwise what is
  before and what is after its first occurrence. The module calls it with its two
  non-empty separators only.
\<close>

fun py_split1 :: "string \<Rightarrow> string \<Rightarrow> string list" where
  "py_split1 sep [] = [[]]"
| "py_split1 sep (c # cs) =
     (if prefix sep (c # cs) then [[], drop (length sep) (c # cs)]
      else (case py_split1 sep cs of
              [] \<Rightarrow> [[c]]
            | a # rest \<Rightarrow> (c # a) # rest))"

text \<open>
  \<^verbatim>\<open>s.replace(old, "")\<close>: scanning from the left, every occurrence of \<^verbatim>\<open>old\<close> that does
  not overlap an earlier one is dropped; an empty \<^verbatim>\<open>old\<close> leaves \<^verbatim>\<open>s\<close> as it is.
\<close>

function py_replace :: "string \<Rightarrow> string \<Rightarrow> string" where
  "py_replace [] old = []"
| "py_replace (c # cs) old =
     (if old \<noteq> [] \<and> prefix old (c # cs) then py_replace (drop (length old) (c # cs)) old
      else c # py_replace cs old)"
  by pat_completeness auto
termination
  by (relation "measure (\<lambda>(s, old). length s)") auto

text \<open>
  \<^verbatim>\<open>str.isspace\<close> on the characters \<^verbatim>\<open>decode("ascii")\<close> can produce, and \<^verbatim>\<open>str.strip()\<close>.
\<close>

definition py_isspace :: "char \<Rightarrow> bool" where
  "py_isspace c \<longleftrightarrow>
     c \<in> set [CHR 0x09, CHR 0x0A, CHR 0x0B, CHR 0x0C, CHR 0x0D,
               CHR 0x1C, CHR 0x1D, CHR 0x1E, CHR 0x1F, CHR 0x20]"

definition py_strip :: "string \<Rightarrow> string" where
  "py_strip s = rev (dropWhile py_isspace (rev (dropWhile py_isspace s)))"

text \<open>\<^verbatim>\<open>bytes.decode("ascii")\<close> raises on a byte above 127.\<close>

definition decode_ascii :: "string \<Rightarrow> exn + string" where
  "decode_ascii bs =
     (if list_all (\<lambda>c. \<not> digit7 c) bs then Inr bs
      else Inl (Exception ''UnicodeDecodeError''))"

text \<open>How an f-string renders a host that is a string or \<^verbatim>\<open>None\<close>.\<close>

fun format_opt :: "string option \<Rightarrow> string" where
  "format_opt None = ''None''"
| "format_opt (Some v) = v"

text \<open>\<^verbatim>\<open>HTTPMessage.get(name)\<close>: the first field of that name, names compared without case.\<close>

definition msg_get :: "(string \<times> string) list \<Rightarrow> string \<Rightarrow> string option" where
  "msg_get msg name = map_of (map (\<lambda>(k, v). (py_lower k, v)) msg) (py_lower name)"

text \<open>
  Truth value of \<^verbatim>\<open>headers\<close>: \<^verbatim>\<open>None\<close> and empty bytes are false, and so is an
  \<^verbatim>\<open>HTTPMessage\<close> without fields (its \<^verbatim>\<open>__len__\<close> is the number of fields).
\<close>

fun truthy :: "hdrs \<Rightarrow> bool" where
  "truthy HNone = False"
| "truthy (HBytes b) = (b \<noteq> [])"
| "truthy (HMsg m) = (m \<noteq> [])"

section \<open>The request wrapper\<close>

text \<open>
  What \<^verbatim>\<open>_request_wrapper\<close> reads from the \<^verbatim>\<open>HTTPConnection\<close>: \<^verbatim>\<open>host\<close> and
  \<^verbatim>\<open>_method\<close> through \<^verbatim>\<open>getattr\<close> with default \<^verbatim>\<open>None\<close>, and \<^verbatim>\<open>_http_vsn_str\<close>.
\<close>

record connection =
  instance_host :: "string option"
  instance_method :: "string option"
  instance_http_vsn_str :: string

text \<open>The frame of \<^verbatim>\<open>_request_wrapper\<close>: the process state and the local variables.\<close>

record frame = state +
  l_args :: "pyval list"
  l_data :: pyval
  l_host :: "string option"
  l_method :: "string option"
  l_headers :: hdrs
  l_body :: pyval
  l_uri :: "string option"

text \<open>
  \<^verbatim>\<open>safe_get\<close> of \<^verbatim>\<open>lumigo_tracer.parsers.utils\<close> is not among the sources; it is taken
  as indexing that gives \<^verbatim>\<open>None\<close> where indexing would raise.
\<close>

definition safe_get :: "pyval list \<Rightarrow> nat \<Rightarrow> pyval" where
  "safe_get xs i = (if i < length xs then xs ! i else PyNone)"

definition enter :: "state \<Rightarrow> pyval list \<Rightarrow> frame" where
  "enter s xs =
     \<lparr>already_wrapped = already_wrapped s, builtins_print = builtins_print s, calls = calls s,
      l_args = xs, l_data = safe_get xs 0, l_host = None, l_method = None,
      l_headers = HNone, l_body = PyNone, l_uri = None\<rparr>"

definition leave :: "frame \<Rightarrow> state" where
  "leave f =
     \<lparr>already_wrapped = already_wrapped f, builtins_print = builtins_print f, calls = calls f\<rparr>"

text \<open>
  Lines 32 to 35. \<^verbatim>\<open>data\<close> and \<^verbatim>\<open>args[0]\<close> are the same stream until \<^verbatim>\<open>data\<close> is rebound
  to the bytes read.
\<close>

definition parse_requested_streams :: "unit frame_scheme \<Rightarrow> exn option \<times> unit frame_scheme" where
  "parse_requested_streams f =
     (case l_data f of
        PyBytesIO io \<Rightarrow>
          (case tell io of
             Inl x \<Rightarrow> (Some x, f)
           | Inr current_pos \<Rightarrow>
               (case read io MAX_READ_SIZE of
                  Inl x \<Rightarrow> (Some x, f)
                | Inr (chunk, io1) \<Rightarrow>
                    (case seek io1 current_pos of
                       Inl x \<Rightarrow>
                         (Some x, f\<lparr>l_data := PyBytes chunk, l_args := (l_args f)[0 := PyBytesIO io1]\<rparr>)
                     | Inr io2 \<Rightarrow>
                         (None, f\<lparr>l_data := PyBytes chunk, l_args := (l_args f)[0 := PyBytesIO io2]\<rparr>))))
      | _ \<Rightarrow> (None, f))"

text \<open>Lines 50 to 56.\<close>

definition path_and_query_params :: "string \<Rightarrow> string \<Rightarrow> string \<Rightarrow> string" where
  "path_and_query_params request_info m vsn = py_strip (py_replace (py_replace request_info m) vsn)"

text \<open>
  Lines 45 to 58. Each assignment stays done when a later statement raises;
  \<^verbatim>\<open>replace(None, "")\<close> raises \<^verbatim>\<open>TypeError\<close>, unpacking anything but two pieces
  \<^verbatim>\<open>ValueError\<close>.
\<close>

definition parse_request :: "env \<Rightarrow> connection \<Rightarrow> unit frame_scheme \<Rightarrow> exn option \<times> unit frame_scheme" where
  "parse_request e instance f =
     (case l_data f of
        PyBytes d \<Rightarrow>
          (if bytes_contains BODY_HEADER_SPLITTER d then
             (case py_split1 BODY_HEADER_SPLITTER d of
                [h, b] \<Rightarrow>
                  (let f1 = f\<lparr>l_headers := HBytes h, l_body := PyBytes b\<rparr> in
                   if bytes_contains FLAGS_HEADER_SPLITTER h then
                     (case py_split1 FLAGS_HEADER_SPLITTER h of
                        [request_info, h2] \<Rightarrow>
                          (let f2 = f1\<lparr>l_headers := HBytes h2\<rparr> in
                           case parse_headers e h2 of
                             Inl x \<Rightarrow> (Some x, f2)
                           | Inr msg \<Rightarrow>
                               (let f3 = f2\<lparr>l_headers := HMsg msg\<rparr> in
                                case decode_ascii request_info of
                                  Inl x \<Rightarrow> (Some x, f3)
                                | Inr line \<Rightarrow>
                                    (case l_method f3 of
                                       None \<Rightarrow> (Some (Exception ''TypeError''), f3)
                                     | Some m \<Rightarrow>
                                         (None, f3\<lparr>
                                            l_uri := Some (format_opt (l_host f3) @
                                              path_and_query_params line m (instance_http_vsn_str instance)),
                                            l_host := (if l_host f3 = None \<or> l_host f3 = Some []
                                                       then msg_get msg ''Host'' else l_host f3)\<rparr>))))
                      | _ \<Rightarrow> (Some (Exception ''ValueError''), f1))
                   else (None, f1))
              | _ \<Rightarrow> (Some (Exception ''ValueError''), f))
           else (None, f))
      | _ \<Rightarrow> (None, f))"

text \<open>Lines 61 to 68.\<close>

definition add_request_event :: "env \<Rightarrow> unit frame_scheme \<Rightarrow> exn option \<times> unit frame_scheme" where
  "add_request_event e f =
     (if truthy (l_headers f) then
        collab e (Add_request_event
          \<lparr>req_host = l_host f, req_method = l_method f, req_uri = l_uri f,
           req_headers = l_headers f, req_body = l_body f\<rparr>) f
      else
        collab e (Add_unparsed_request
          \<lparr>req_host = l_host f, req_method = l_method f, req_uri = l_uri f,
           req_headers = HNone, req_body = l_data f\<rparr>) f)"

text \<open>Lines 30 to 68: everything before the wrapped \<^verbatim>\<open>send\<close> is called.\<close>

definition before_send :: "env \<Rightarrow> connection \<Rightarrow> unit frame_scheme \<Rightarrow> exn option \<times> unit frame_scheme" where
  "before_send e instance =
     seq (lumigo_safe_execute ''parse requested streams'' parse_requested_streams)
    (seq (\<lambda>f. (None, f\<lparr>l_host := instance_host instance, l_method := instance_method instance,
                      l_headers := HNone, l_body := PyNone, l_uri := None\<rparr>))
    (seq (lumigo_safe_execute ''parse request'' (parse_request e instance))
         (lumigo_safe_execute ''add request event'' (add_request_event e))))"

text \<open>Lines 70 to 73, from the outcome of the wrapped \<^verbatim>\<open>send\<close>.\<close>

definition after_send :: "env \<Rightarrow> (exn + pyval) \<times> state \<Rightarrow> (exn + pyval) \<times> state" where
  "after_send e r =
     (case r of
        (Inl x, s1) \<Rightarrow> (Inl x, s1)
      | (Inr ret_val, s1) \<Rightarrow>
          (case lumigo_safe_execute ''add response event'' (collab e Update_event_end_time) s1 of
             (Some x, s2) \<Rightarrow> (Inl x, s2)
           | (None, s2) \<Rightarrow> (Inr ret_val, s2)))"

definition request_wrapper :: "env \<Rightarrow> pyfun \<Rightarrow> connection \<Rightarrow> pyfun" where
  "request_wrapper e func instance args kw s =
     (case before_send e instance (enter s args) of
        (Some x, f) \<Rightarrow> (Inl x, leave f)
      | (None, f) \<Rightarrow> after_send e (func (l_args f) kw (leave f)))"

section \<open>The header injector\<close>

text \<open>
  Line 107 evaluates its right-hand side first, then \<^verbatim>\<open>kwargs["headers"]\<close>
  (\<^verbatim>\<open>KeyError\<close> without that keyword), then stores into it (\<^verbatim>\<open>TypeError\<close> unless it
  supports item assignment). Nothing catches either.
\<close>

definition putheader_wrapper :: "env \<Rightarrow> pyfun \<Rightarrow> pyfun" where
  "putheader_wrapper e func args kw s =
     (case collab e Get_patched_root s of
        (Some x, s1) \<Rightarrow> (Inl x, s1)
      | (None, s1) \<Rightarrow>
          (case map_of kw ''headers'' of
             None \<Rightarrow> (Inl (Exception ''KeyError''), s1)
           | Some (PyDict d) \<Rightarrow>
               func args
                 (AList.update ''headers''
                    (PyDict (AList.update ''X-Amzn-Trace-Id'' (PyStr (patched_root e)) d)) kw) s1
           | Some _ \<Rightarrow> (Inl (Exception ''TypeError''), s1)))"

section \<open>The Chalice adapter\<close>

text \<open>
  An attribute of the wrapped application is a plain value or a registration method: called
  with arguments it gives Chalice's decorator, which maps a handler to a handler. \<open>'h\<close> is
  the type of applications and handlers, looked into through \<^verbatim>\<open>__getattribute__\<close> only.
\<close>

datatype 'h attr =
    Plain pyval
  | Registration "pyval list \<Rightarrow> kwargs \<Rightarrow> exn + ('h \<Rightarrow> exn + 'h)"

record 'h lumigo_chalice =
  lumigo_conf_args :: "pyval list"
  lumigo_conf_kwargs :: kwargs
  app :: 'h

datatype 'h attribute =
    Original "'h attr"
  | Get_decorator "pyval list \<Rightarrow> kwargs \<Rightarrow> exn + ('h \<Rightarrow> exn + 'h lumigo_chalice)"

definition DECORATORS_OF_NEW_HANDLERS :: "string list" where
  "DECORATORS_OF_NEW_HANDLERS =
     [''on_s3_event'', ''on_sns_message'', ''on_sqs_message'', ''schedule'', ''lambda_function'']"

definition LumigoChalice :: "'h \<Rightarrow> pyval list \<Rightarrow> kwargs \<Rightarrow> 'h lumigo_chalice" where
  "LumigoChalice a conf_args conf_kwargs =
     \<lparr>lumigo_conf_args = conf_args, lumigo_conf_kwargs = conf_kwargs, app = a\<rparr>"

definition wrapper2 :: "'h lumigo_chalice \<Rightarrow> ('h \<Rightarrow> exn + 'h) \<Rightarrow> 'h \<Rightarrow> exn + 'h lumigo_chalice" where
  "wrapper2 self chalice_actual_decorator func =
     (case chalice_actual_decorator func of
        Inl x \<Rightarrow> Inl x
      | Inr user_func_wrapped_by_chalice \<Rightarrow>
          Inr (LumigoChalice user_func_wrapped_by_chalice
                 (lumigo_conf_args self) (lumigo_conf_kwargs self)))"

definition get_decorator ::
  "'h lumigo_chalice \<Rightarrow> 'h attr \<Rightarrow> pyval list \<Rightarrow> kwargs \<Rightarrow> exn + ('h \<Rightarrow> exn + 'h lumigo_chalice)" where
  "get_decorator self original_attr args kw =
     (case original_attr of
        Plain v \<Rightarrow> Inl (Exception ''TypeError'')
      | Registration g \<Rightarrow>
          (case g args kw of
             Inl x \<Rightarrow> Inl x
           | Inr chalice_actual_decorator \<Rightarrow> Inr (wrapper2 self chalice_actual_decorator)))"

text \<open>
  \<^verbatim>\<open>LumigoChalice.__getattr__\<close>; \<open>getattribute\<close> is \<^verbatim>\<open>app.__getattribute__\<close>, which
  raises \<^verbatim>\<open>AttributeError\<close> for a name the application does not have.
\<close>

definition chalice_getattr ::
  "env \<Rightarrow> ('h \<Rightarrow> string \<Rightarrow> exn + 'h attr) \<Rightarrow> 'h lumigo_chalice \<Rightarrow> string \<Rightarrow> exn + 'h attribute" where
  "chalice_getattr e getattribute self item =
     (case getattribute (app self) item of
        Inl x \<Rightarrow> Inl x
      | Inr original_attr \<Rightarrow>
          (if is_aws_environment e \<and> item \<in> set DECORATORS_OF_NEW_HANDLERS
           then Inr (Get_decorator (get_decorator self original_attr))
           else Inr (Original original_attr)))"

text \<open>
  The names an adapter has itself: the attributes set by \<^verbatim>\<open>__init__\<close> (lines 180 to 184)
  and the names of the class body (lines 170 to 210). Python finds these, and the names
  the class inherits from \<^verbatim>\<open>object\<close>, by normal lookup, and calls \<^verbatim>\<open>__getattr__\<close> only
  for a name that normal lookup does not find.
\<close>

definition adapter_names :: "string list" where
  "adapter_names =
     [''lumigo_conf_args'', ''lumigo_conf_kwargs'', ''app'', ''original_app_attr_getter'',
      ''lumigo_app'', ''DECORATORS_OF_NEW_HANDLERS'', ''__init__'', ''__getattr__'', ''__call__'']"

datatype 'h lookup =
    Own string
  | Via_getattr "exn + 'h attribute"

text \<open>
  Attribute access on an adapter, \<^verbatim>\<open>adapter.item\<close>; \<open>inherited\<close> are the names that
  \<^verbatim>\<open>object\<close> provides.
\<close>

definition attribute_access ::
  "env \<Rightarrow> string set \<Rightarrow> ('h \<Rightarrow> string \<Rightarrow> exn + 'h attr) \<Rightarrow> 'h lumigo_chalice \<Rightarrow> string
     \<Rightarrow> 'h lookup" where
  "attribute_access e inherited getattribute self item =
     (if item \<in> set adapter_names \<or> item \<in> inherited then Own item
      else Via_getattr (chalice_getattr e getattribute self item))"

section \<open>Reference notions and example inputs\<close>

text \<open>
  Following the spec's words: two strings compared case-insensitively, letter by letter.
\<close>

definition same_letter :: "char \<Rightarrow> char \<Rightarrow> bool" where
  "same_letter c d \<longleftrightarrow>
     c = d
     \<or> (c, d) \<in> set (zip ''ABCDEFGHIJKLMNOPQRSTUVWXYZ'' ''abcdefghijklmnopqrstuvwxyz'')
     \<or> (d, c) \<in> set (zip ''ABCDEFGHIJKLMNOPQRSTUVWXYZ'' ''abcdefghijklmnopqrstuvwxyz'')"

definition eq_ignore_case :: "string \<Rightarrow> string \<Rightarrow> bool" where
  "eq_ignore_case v w \<longleftrightarrow> list_all2 same_letter v w"

text \<open>
  A stand-in for \<^verbatim>\<open>http.client.parse_headers\<close>, used for the example inputs only: one
  \<^verbatim>\<open>Name: value\<close> field per CRLF-separated line. It agrees with the library on a block
  made of such lines; unlike the library it knows no continuation lines, and it skips a
  line without a colon where the library stops reading.
\<close>

fun lines_of :: "string \<Rightarrow> string list" where
  "lines_of [] = [[]]"
| "lines_of [c] = [[c]]"
| "lines_of (c # d # cs) =
     (if [c, d] = CRLF then [] # lines_of cs
      else (case lines_of (d # cs) of
              [] \<Rightarrow> [[c]]
            | l # ls \<Rightarrow> (c # l) # ls))"

definition header_field :: "string \<Rightarrow> (string \<times> string) option" where
  "header_field l =
     (case py_split1 '':'' l of
        [k, v] \<Rightarrow> Some (k, py_strip v)
      | _ \<Rightarrow> None)"

definition simple_parse_headers :: "string \<Rightarrow> exn + (string \<times> string) list" where
  "simple_parse_headers block = Inr (List.map_filter header_field (lines_of block))"

text \<open>
  In \<open>a @ sep @ b\<close>, no occurrence of \<open>sep\<close> starts inside \<open>a\<close>: the first occurrence is the
  one right after \<open>a\<close>.
\<close>

definition no_earlier :: "string \<Rightarrow> string \<Rightarrow> bool" where
  "no_earlier sep a \<longleftrightarrow> \<not> bytes_contains sep (a @ butlast sep)"

text \<open>
  Neither the collaborators nor \<^verbatim>\<open>parse_headers\<close> raise anything but instances of
  \<^verbatim>\<open>Exception\<close>.
\<close>

definition only_exceptions :: "env \<Rightarrow> bool" where
  "only_exceptions e \<longleftrightarrow>
     (\<forall>c b. raises e c \<noteq> Some (BaseException b)) \<and> (\<forall>h b. parse_headers e h \<noteq> Inl (BaseException b))"

text \<open>The state in which \<^verbatim>\<open>_request_wrapper\<close> reaches line 70.\<close>

definition send_state :: "env \<Rightarrow> connection \<Rightarrow> pyval list \<Rightarrow> state \<Rightarrow> state" where
  "send_state e instance args s = leave (snd (before_send e instance (enter s args)))"

text \<open>The four interception points, in the order \<^verbatim>\<open>wrap_http_calls\<close> patches them.\<close>

definition interception_points :: "call list" where
  "interception_points =
     [Wrap_function_wrapper ''http.client'' ''HTTPConnection.send'' ''_request_wrapper'',
      Wrap_function_wrapper ''botocore.awsrequest'' ''AWSRequest.__init__'' ''_putheader_wrapper'',
      Wrap_function_wrapper ''http.client'' ''HTTPConnection.getresponse'' ''_response_wrapper'',
      Wrap_function_wrapper ''http.client'' ''HTTPResponse.read'' ''_read_wrapper'']"

text \<open>The kill switch is not set to \<^verbatim>\<open>true\<close>.\<close>

definition enabled :: "env \<Rightarrow> bool" where
  "enabled e \<longleftrightarrow> py_lower (environ_get e KILL_SWITCH '''') \<noteq> ''true''"

text \<open>One call of the installer per invocation, each with its own environment.\<close>

definition installer_calls :: "env list \<Rightarrow> state \<Rightarrow> state" where
  "installer_calls es s = fold (\<lambda>e s'. snd (wrap_http_calls e s')) es s"

text \<open>An environment in which every collaborator returns.\<close>

definition example_env :: env where
  "example_env =
     \<lparr>environ = Map.empty, is_enhanced_print = Inr False, is_aws_environment = True,
      patched_root = ''Root=1-5759e988-bd862e3fe1be46a994272793'',
      parse_headers = simple_parse_headers, raises = (\<lambda>c. None)\<rparr>"

text \<open>Environments in which one collaborator raises.\<close>

definition env_without_botocore :: env where
  "env_without_botocore =
     example_env\<lparr>raises := (\<lambda>c. if c = interception_points ! 1
                                 then Some (Exception ''ModuleNotFoundError'') else None)\<rparr>"

definition env_print_fails :: env where
  "env_print_fails = example_env\<lparr>is_enhanced_print := Inl (Exception ''KeyError'')\<rparr>"

definition env_create_span_fails :: env where
  "env_create_span_fails =
     example_env\<lparr>raises := (\<lambda>c. case c of Create_span a \<Rightarrow> Some (Exception ''RuntimeError'')
                                 | _ \<Rightarrow> None)\<rparr>"

definition env_start_fails :: env where
  "env_start_fails =
     example_env\<lparr>raises := (\<lambda>c. case c of Span_start \<Rightarrow> Some (Exception ''RuntimeError'')
                                 | _ \<Rightarrow> None)\<rparr>"

text \<open>The event and the context of an invocation.\<close>

definition example_args :: "pyval list" where
  "example_args =
     [PyObject [(''detail'', PyStr ''x'')], PyObject [(''aws_request_id'', PyStr ''r-1'')]]"

text \<open>The bytes of a request without body, and a stream positioned after four bytes.\<close>

definition example_request :: string where
  "example_request = ''GET /foo?x=1 HTTP/1.1'' @ CRLF @ ''Host: example.com'' @ CRLF @ CRLF"

definition example_stream :: bytesio where
  "example_stream = \<lparr>buf = ''0123456789'', pos = 4, closed = False\<rparr>"

text \<open>
  A Chalice application seen through \<^verbatim>\<open>__getattribute__\<close>, handlers being named by
  strings: \<^verbatim>\<open>schedule\<close> is a registration method, \<^verbatim>\<open>app_name\<close> a plain attribute.
\<close>

definition example_schedule :: "pyval list \<Rightarrow> kwargs \<Rightarrow> exn + (string \<Rightarrow> exn + string)" where
  "example_schedule args kw = Inr (\<lambda>h. Inr (''scheduled:'' @ h))"

definition example_getattribute :: "string \<Rightarrow> string \<Rightarrow> exn + string attr" where
  "example_getattribute a item =
     (if item = ''schedule'' then Inr (Registration example_schedule)
      else if item = ''app_name'' then Inr (Plain (PyStr a))
      else Inl (Exception ''AttributeError''))"

definition example_adapter :: "string lumigo_chalice" where
  "example_adapter = LumigoChalice ''app'' [] [(''token'', PyStr ''t_123'')]"

text \<open>Some of the names every object has.\<close>

definition example_inherited :: "string set" where
  "example_inherited = set [''__class__'', ''__dict__'', ''__doc__'', ''__getattribute__'']"

text \<open>Keyword arguments of a request construction that names no headers.\<close>

definition example_request_kwargs :: kwargs where
  "example_request_kwargs = [(''method'', PyStr ''GET''), (''url'', PyStr ''https://example.com/'')]"

text \<open>
  A process in which nothing has run yet, a handler that returns and one that raises, and
  a connection on which \<^verbatim>\<open>putrequest\<close> was called.
\<close>

definition fresh :: state where
  "fresh = \<lparr>already_wrapped = False, builtins_print = [], calls = []\<rparr>"

definition handler_ok :: pyfun where
  "handler_ok args kw s = (Inr (PyStr ''ok''), s)"

definition handler_boom :: pyfun where
  "handler_boom args kw s = (Inl (Exception ''boom''), s)"

definition example_connection :: connection where
  "example_connection =
     \<lparr>instance_host = Some ''example.com'', instance_method = Some ''GET'',
      instance_http_vsn_str = ''HTTP/1.1''\<rparr>"

section \<open>Properties of the kill switch\<close>

lemma lower_char_t: "lower_char c = CHR ''t'' \<longleftrightarrow> c = CHR ''t'' \<or> c = CHR ''T''"
  by (simp add: lower_char_def)
lemma lower_char_r: "lower_char c = CHR ''r'' \<longleftrightarrow> c = CHR ''r'' \<or> c = CHR ''R''"
  by (simp add: lower_char_def)
lemma lower_char_u: "lower_char c = CHR ''u'' \<longleftrightarrow> c = CHR ''u'' \<or> c = CHR ''U''"
  by (simp add: lower_char_def)
lemma lower_char_e: "lower_char c = CHR ''e'' \<longleftrightarrow> c = CHR ''e'' \<or> c = CHR ''E''"
  by (simp add: lower_char_def)

lemma same_letter_t: "same_letter c CHR ''t'' \<longleftrightarrow> c = CHR ''t'' \<or> c = CHR ''T''"
  by (auto simp add: same_letter_def)
lemma same_letter_r: "same_letter c CHR ''r'' \<longleftrightarrow> c = CHR ''r'' \<or> c = CHR ''R''"
  by (auto simp add: same_letter_def)
lemma same_letter_u: "same_letter c CHR ''u'' \<longleftrightarrow> c = CHR ''u'' \<or> c = CHR ''U''"
  by (auto simp add: same_letter_def)
lemma same_letter_e: "same_letter c CHR ''e'' \<longleftrightarrow> c = CHR ''e'' \<or> c = CHR ''E''"
  by (auto simp add: same_letter_def)

lemma py_lower_true_iff: "py_lower v = ''true'' \<longleftrightarrow> eq_ignore_case v ''true''"
  by (auto simp add: py_lower_def eq_ignore_case_def list_all2_Cons2 map_eq_Cons_conv
      lower_char_t lower_char_r lower_char_u lower_char_e
      same_letter_t same_letter_r same_letter_u same_letter_e)

text \<open>
  C3. The kill switch is the environment variable \<^verbatim>\<open>LUMIGO_SWITCH_OFF\<close>, compared
  case-insensitively with \<^verbatim>\<open>true\<close>. When it matches, the wrapper is the function itself:
  same result and same state, so nothing is installed and no trace context is created.
  When it is unset or holds anything else, the instrumented body runs.
\<close>

theorem kill_switch:
  "lambda_wrapper e func args kw s =
     (if \<exists>v. environ e KILL_SWITCH = Some v \<and> eq_ignore_case v ''true''
      then func args kw s
      else traced e func args kw s)"
proof (cases "environ e KILL_SWITCH")
  case None
  then show ?thesis
    by (simp add: lambda_wrapper_def environ_get_def py_lower_def)
next
  case (Some v)
  then show ?thesis
    by (simp add: lambda_wrapper_def environ_get_def py_lower_true_iff)
qed

theorem kill_switch_witness:
  "lambda_wrapper (example_env\<lparr>environ := [KILL_SWITCH \<mapsto> ''TRUE'']\<rparr>) handler_ok [] [] fresh = handler_ok [] [] fresh
   \<and> lambda_wrapper (example_env\<lparr>environ := [KILL_SWITCH \<mapsto> ''true'']\<rparr>) handler_ok [] [] fresh = handler_ok [] [] fresh
   \<and> lambda_wrapper (example_env\<lparr>environ := [KILL_SWITCH \<mapsto> ''True'']\<rparr>) handler_ok [] [] fresh = handler_ok [] [] fresh
   \<and> lambda_wrapper (example_env\<lparr>environ := [KILL_SWITCH \<mapsto> ''1'']\<rparr>) handler_ok [] [] fresh
       = traced (example_env\<lparr>environ := [KILL_SWITCH \<mapsto> ''1'']\<rparr>) handler_ok [] [] fresh
   \<and> lambda_wrapper example_env handler_ok [] [] fresh = traced example_env handler_ok [] [] fresh"
  using kill_switch [of "example_env\<lparr>environ := [KILL_SWITCH \<mapsto> ''TRUE'']\<rparr>" handler_ok "[]" "[]" fresh]
    kill_switch [of "example_env\<lparr>environ := [KILL_SWITCH \<mapsto> ''true'']\<rparr>" handler_ok "[]" "[]" fresh]
    kill_switch [of "example_env\<lparr>environ := [KILL_SWITCH \<mapsto> ''True'']\<rparr>" handler_ok "[]" "[]" fresh]
    kill_switch [of "example_env\<lparr>environ := [KILL_SWITCH \<mapsto> ''1'']\<rparr>" handler_ok "[]" "[]" fresh]
    kill_switch [of example_env handler_ok "[]" "[]" fresh]
  by (simp add: example_env_def eq_ignore_case_def same_letter_def)

section \<open>Properties of the installer\<close>

lemma collab_returns: "raises e c = None \<Longrightarrow> collab e c s = (None, s\<lparr>calls := calls s @ [c]\<rparr>)"
  by (simp add: collab_def)

lemma collab_raises: "raises e c = Some x \<Longrightarrow> collab e c s = (Some x, s)"
  by (simp add: collab_def)

lemma wrap_http_calls_installed: "already_wrapped s \<Longrightarrow> wrap_http_calls e s = (None, s)"
  by (simp add: wrap_http_calls_def)

lemma wrap_http_calls_success:
  assumes "\<not> already_wrapped s" and "\<forall>c \<in> set interception_points. raises e c = None"
  shows "wrap_http_calls e s =
           (None, s\<lparr>calls := calls s @ Logger_debug ''wrapping the http request'' # interception_points,
                    already_wrapped := True\<rparr>)"
  using assms
  by (simp add: wrap_http_calls_def lumigo_safe_execute_def wrap_block_def seq_def
      wrap_function_wrapper_def collab_def logger_def interception_points_def)

lemma wrap_http_calls_failure:
  assumes "\<not> already_wrapped s" and "i < length interception_points"
    and "\<forall>j<i. raises e (interception_points ! j) = None"
    and "raises e (interception_points ! i) = Some (Exception m)"
  shows "wrap_http_calls e s =
           (None, s\<lparr>calls := calls s @ Logger_debug ''wrapping the http request''
                       # take i interception_points
                       @ [Logger_exception ''wrap http calls'' (Exception m)]\<rparr>)"
proof -
  from assms(2) have "i = 0 \<or> i = 1 \<or> i = 2 \<or> i = 3"
    by (auto simp add: interception_points_def)
  then show ?thesis
    using assms(1,3,4)
    by (elim disjE)
      (simp_all add: wrap_http_calls_def lumigo_safe_execute_def wrap_block_def seq_def
        wrap_function_wrapper_def collab_def logger_def interception_points_def
        less_Suc_eq numeral_2_eq_2 numeral_3_eq_3 all_conj_distrib)
qed

lemma installer_calls_installed: "already_wrapped s \<Longrightarrow> installer_calls es s = s"
  by (induction es) (simp_all add: installer_calls_def wrap_http_calls_installed)

text \<open>
  What one call of the installer does. Once \<^verbatim>\<open>already_wrapped\<close> is set,
  \<^verbatim>\<open>wrap_http_calls\<close> changes nothing, however often and in whatever environment it is
  called again. A first call whose four patches succeed applies each of them once and sets
  the flag. When a patch raises, the exception is logged and not raised to the caller, the
  flag is left false, and the patches applied before it stay applied.
\<close>

lemma installer_outcomes:
  "(already_wrapped s \<longrightarrow> wrap_http_calls e s = (None, s) \<and> installer_calls es s = s)
   \<and> (\<not> already_wrapped s \<and> (\<forall>c \<in> set interception_points. raises e c = None) \<longrightarrow>
        wrap_http_calls e s =
          (None, s\<lparr>calls := calls s @ Logger_debug ''wrapping the http request'' # interception_points,
                   already_wrapped := True\<rparr>)
        \<and> installer_calls (e # es) s = snd (wrap_http_calls e s))
   \<and> (\<not> already_wrapped s \<and> i < length interception_points
        \<and> (\<forall>j<i. raises e (interception_points ! j) = None)
        \<and> raises e (interception_points ! i) = Some (Exception m) \<longrightarrow>
        fst (wrap_http_calls e s) = None
        \<and> \<not> already_wrapped (snd (wrap_http_calls e s))
        \<and> calls (snd (wrap_http_calls e s)) =
            calls s @ Logger_debug ''wrapping the http request'' # take i interception_points
              @ [Logger_exception ''wrap http calls'' (Exception m)])"
proof (intro conjI impI)
  assume "already_wrapped s"
  then show "wrap_http_calls e s = (None, s)" "installer_calls es s = s"
    by (simp_all add: wrap_http_calls_installed installer_calls_installed)
next
  assume a: "\<not> already_wrapped s \<and> (\<forall>c \<in> set interception_points. raises e c = None)"
  then show w: "wrap_http_calls e s =
          (None, s\<lparr>calls := calls s @ Logger_debug ''wrapping the http request'' # interception_points,
                   already_wrapped := True\<rparr>)"
    by (simp add: wrap_http_calls_success)
  have "installer_calls (e # es) s = installer_calls es (snd (wrap_http_calls e s))"
    by (simp add: installer_calls_def)
  also have "\<dots> = snd (wrap_http_calls e s)"
    by (rule installer_calls_installed) (simp add: w)
  finally show "installer_calls (e # es) s = snd (wrap_http_calls e s)" .
next
  assume a: "\<not> already_wrapped s \<and> i < length interception_points
        \<and> (\<forall>j<i. raises e (interception_points ! j) = None)
        \<and> raises e (interception_points ! i) = Some (Exception m)"
  then have w: "wrap_http_calls e s =
           (None, s\<lparr>calls := calls s @ Logger_debug ''wrapping the http request''
                       # take i interception_points
                       @ [Logger_exception ''wrap http calls'' (Exception m)]\<rparr>)"
    by (simp add: wrap_http_calls_failure)
  show "fst (wrap_http_calls e s) = None" by (simp add: w)
  show "\<not> already_wrapped (snd (wrap_http_calls e s))" using a by (simp add: w)
  show "calls (snd (wrap_http_calls e s)) =
            calls s @ Logger_debug ''wrapping the http request'' # take i interception_points
              @ [Logger_exception ''wrap http calls'' (Exception m)]"
    by (simp add: w)
qed

text \<open>
  C7. The flag is set only after the fourth patch. When the patch of
  \<^verbatim>\<open>AWSRequest.__init__\<close> raises, \<^verbatim>\<open>HTTPConnection.send\<close> stays patched and the flag stays
  false, so the next call of the installer patches \<^verbatim>\<open>HTTPConnection.send\<close> again: twice
  after a retry that succeeds, once more with every retry that fails.
\<close>

theorem send_patched_again_after_failed_install:
  "count_list (calls (installer_calls [env_without_botocore, example_env] fresh))
     (Wrap_function_wrapper ''http.client'' ''HTTPConnection.send'' ''_request_wrapper'') = 2
   \<and> already_wrapped (installer_calls [env_without_botocore, example_env] fresh)
   \<and> count_list
       (calls (installer_calls [env_without_botocore, env_without_botocore, env_without_botocore] fresh))
       (Wrap_function_wrapper ''http.client'' ''HTTPConnection.send'' ''_request_wrapper'') = 3
   \<and> \<not> already_wrapped
       (installer_calls [env_without_botocore, env_without_botocore, env_without_botocore] fresh)"
  by (simp add: installer_calls_def wrap_http_calls_def lumigo_safe_execute_def wrap_block_def
      seq_def wrap_function_wrapper_def collab_def logger_def fresh_def example_env_def
      env_without_botocore_def interception_points_def)

section \<open>Properties of the invocation lifecycle\<close>

lemma seq_returns: "f s = (None, s1) \<Longrightarrow> seq f g s = g s1"
  by (simp add: seq_def)

lemma seq_raises: "f s = (Some x, s1) \<Longrightarrow> seq f g s = (Some x, s1)"
  by (simp add: seq_def)

lemma enhance_print_raises:
  "is_enhanced_print e = Inl x \<Longrightarrow> enhance_print e args s = (Some x, s)"
  by (simp add: enhance_print_def)

lemma finally_clause_returns:
  "raises e (Span_end v) = None \<Longrightarrow>
   finally_clause e lp v s = (None, s\<lparr>calls := calls s @ [Span_end v], builtins_print := lp\<rparr>)"
  by (simp add: finally_clause_def seq_def collab_def)

text \<open>
  When recording and finalizing return, the inner \<^verbatim>\<open>try\<close> gives back what the function
  gave: its value or its exception.
\<close>

lemma run_outcome:
  assumes "\<forall>v. raises e (Span_end v) = None" and "\<forall>x. raises e (Add_exception_event x) = None"
  shows "fst (run e func lp args kw s) = fst (func args kw s)"
proof (cases "func args kw s")
  case (Pair r s1)
  show ?thesis
  proof (cases r)
    case (Inr v)
    with Pair assms show ?thesis
      by (simp add: run_def finally_clause_returns)
  next
    case (Inl x)
    with Pair assms show ?thesis
      by (cases x) (simp_all add: run_def finally_clause_returns collab_returns)
  qed
qed

text \<open>
  C1. With the kill switch off, an exception (an instance of \<^verbatim>\<open>Exception\<close>) raised before
  the function has started is caught and logged, and the function is then called with the
  original arguments, its outcome being the wrapper's: from \<^verbatim>\<open>is_enhanced_print\<close>, from
  \<^verbatim>\<open>create_span\<close> and from \<^verbatim>\<open>start\<close> by the outer handler, which calls the function
  itself. An exception raised while installing the interception points is caught and logged
  inside \<^verbatim>\<open>wrap_http_calls\<close>; the function then runs in the inner \<^verbatim>\<open>try\<close>, and its
  outcome is the wrapper's when recording and finalizing return.
\<close>

theorem fail_open_before_run:
  assumes "enabled e"
  shows "(is_enhanced_print e = Inl (Exception m) \<longrightarrow>
            lambda_wrapper e func args kw s =
              func args kw (logger (Logger_exception ''exception in the wrapper'' (Exception m)) s))
    \<and> (enhance_print e args s = (None, s1) \<and> raises e (Create_span args) = Some (Exception m) \<longrightarrow>
            lambda_wrapper e func args kw s =
              func args kw (logger (Logger_exception ''exception in the wrapper'' (Exception m)) s1))
    \<and> (enhance_print e args s = (None, s1) \<and> raises e (Create_span args) = None
          \<and> raises e Span_start = Some (Exception m) \<longrightarrow>
            lambda_wrapper e func args kw s =
              func args kw (logger (Logger_exception ''exception in the wrapper'' (Exception m))
                             (s1\<lparr>calls := calls s1 @ [Create_span args]\<rparr>)))
    \<and> (enhance_print e args s = (None, s1) \<and> raises e (Create_span args) = None
          \<and> raises e Span_start = None \<and> \<not> already_wrapped s1
          \<and> i < length interception_points
          \<and> (\<forall>j<i. raises e (interception_points ! j) = None)
          \<and> raises e (interception_points ! i) = Some (Exception m)
          \<and> (\<forall>v. raises e (Span_end v) = None) \<and> (\<forall>x. raises e (Add_exception_event x) = None) \<longrightarrow>
            fst (lambda_wrapper e func args kw s) =
              fst (func args kw
                     (s1\<lparr>calls := calls s1 @ [Create_span args, Span_start,
                            Logger_debug ''wrapping the http request'']
                          @ take i interception_points
                          @ [Logger_exception ''wrap http calls'' (Exception m)]\<rparr>)))"
proof (intro conjI impI)
  have lw: "lambda_wrapper e func args kw s = traced e func args kw s"
    using assms by (simp add: lambda_wrapper_def enabled_def)
  {
    assume "is_enhanced_print e = Inl (Exception m)"
    then have "pre_run e args s = (Some (Exception m), s)"
      by (simp add: pre_run_def seq_raises enhance_print_raises)
    then show "lambda_wrapper e func args kw s =
              func args kw (logger (Logger_exception ''exception in the wrapper'' (Exception m)) s)"
      by (simp add: lw traced_def)
  }
  {
    assume "enhance_print e args s = (None, s1) \<and> raises e (Create_span args) = Some (Exception m)"
    then have "pre_run e args s = (Some (Exception m), s1)"
      by (simp add: pre_run_def seq_def collab_def)
    then show "lambda_wrapper e func args kw s =
              func args kw (logger (Logger_exception ''exception in the wrapper'' (Exception m)) s1)"
      by (simp add: lw traced_def)
  }
  {
    assume "enhance_print e args s = (None, s1) \<and> raises e (Create_span args) = None
          \<and> raises e Span_start = Some (Exception m)"
    then have "pre_run e args s = (Some (Exception m), s1\<lparr>calls := calls s1 @ [Create_span args]\<rparr>)"
      by (simp add: pre_run_def seq_def collab_def)
    then show "lambda_wrapper e func args kw s =
              func args kw (logger (Logger_exception ''exception in the wrapper'' (Exception m))
                             (s1\<lparr>calls := calls s1 @ [Create_span args]\<rparr>))"
      by (simp add: lw traced_def)
  }
  {
    assume a: "enhance_print e args s = (None, s1) \<and> raises e (Create_span args) = None
          \<and> raises e Span_start = None \<and> \<not> already_wrapped s1
          \<and> i < length interception_points
          \<and> (\<forall>j<i. raises e (interception_points ! j) = None)
          \<and> raises e (interception_points ! i) = Some (Exception m)
          \<and> (\<forall>v. raises e (Span_end v) = None) \<and> (\<forall>x. raises e (Add_exception_event x) = None)"
    let ?s3 = "s1\<lparr>calls := calls s1 @ [Create_span args, Span_start]\<rparr>"
    have "wrap_http_calls e ?s3 =
           (None, ?s3\<lparr>calls := calls ?s3 @ Logger_debug ''wrapping the http request''
                       # take i interception_points
                       @ [Logger_exception ''wrap http calls'' (Exception m)]\<rparr>)"
      using a by (intro wrap_http_calls_failure) simp_all
    with a have "pre_run e args s =
        (None, s1\<lparr>calls := calls s1 @ [Create_span args, Span_start,
                            Logger_debug ''wrapping the http request'']
                          @ take i interception_points
                          @ [Logger_exception ''wrap http calls'' (Exception m)]\<rparr>)"
      by (simp add: pre_run_def seq_def collab_def)
    then show "fst (lambda_wrapper e func args kw s) =
              fst (func args kw
                     (s1\<lparr>calls := calls s1 @ [Create_span args, Span_start,
                            Logger_debug ''wrapping the http request'']
                          @ take i interception_points
                          @ [Logger_exception ''wrap http calls'' (Exception m)]\<rparr>))"
      using a by (simp add: lw traced_def run_outcome)
  }
qed

theorem fail_open_before_run_witness:
  "lambda_wrapper env_print_fails handler_ok example_args [] fresh =
     (Inr (PyStr ''ok''),
      fresh\<lparr>calls := [Logger_exception ''exception in the wrapper'' (Exception ''KeyError'')]\<rparr>)
   \<and> lambda_wrapper env_create_span_fails handler_ok example_args [] fresh =
     (Inr (PyStr ''ok''),
      fresh\<lparr>calls := [Logger_exception ''exception in the wrapper'' (Exception ''RuntimeError'')]\<rparr>)
   \<and> lambda_wrapper env_start_fails handler_ok example_args [] fresh =
     (Inr (PyStr ''ok''),
      fresh\<lparr>calls := [Create_span example_args,
                       Logger_exception ''exception in the wrapper'' (Exception ''RuntimeError'')]\<rparr>)
   \<and> fst (lambda_wrapper env_without_botocore handler_ok example_args [] fresh) = Inr (PyStr ''ok'')"
proof -
  have en: "enabled env_print_fails" "enabled env_create_span_fails" "enabled env_start_fails"
    "enabled env_without_botocore"
    by (simp_all add: enabled_def environ_get_def py_lower_def env_print_fails_def
        env_create_span_fails_def env_start_fails_def env_without_botocore_def example_env_def)
  show ?thesis
    using fail_open_before_run [OF en(1), where m = "''KeyError''" and func = handler_ok
        and args = example_args and kw = "[]" and s = fresh and ?s1.0 = fresh and i = 0]
      fail_open_before_run [OF en(2), where m = "''RuntimeError''" and func = handler_ok
        and args = example_args and kw = "[]" and s = fresh and ?s1.0 = fresh and i = 0]
      fail_open_before_run [OF en(3), where m = "''RuntimeError''" and func = handler_ok
        and args = example_args and kw = "[]" and s = fresh and ?s1.0 = fresh and i = 0]
      fail_open_before_run [OF en(4), where m = "''ModuleNotFoundError''" and func = handler_ok
        and args = example_args and kw = "[]" and s = fresh and ?s1.0 = fresh and i = 1]
    by (simp add: env_print_fails_def env_create_span_fails_def env_start_fails_def
        env_without_botocore_def example_env_def enhance_print_def fresh_def handler_ok_def
        logger_def interception_points_def)
qed

text \<open>
  C2. After INIT and INSTALL have completed, a function that raises an exception (an
  instance of \<^verbatim>\<open>Exception\<close>) has it recorded by \<^verbatim>\<open>add_exception_event\<close>, the trace is
  finalized by \<^verbatim>\<open>end(None)\<close>, \<^verbatim>\<open>builtins.print\<close> is put back, and the same exception
  reaches the caller. The two trace-context calls are taken to return.
\<close>

theorem handler_exception_reraised:
  assumes "enabled e"
    and "pre_run e args s = (None, s1)"
    and "func args kw s1 = (Inl (Exception m), s2)"
    and "raises e (Add_exception_event (Exception m)) = None"
    and "raises e (Span_end PyNone) = None"
  shows "lambda_wrapper e func args kw s =
           (Inl (Exception m),
            s2\<lparr>calls := calls s2 @ [Add_exception_event (Exception m), Span_end PyNone],
               builtins_print := builtins_print s\<rparr>)"
  using assms
  by (simp add: lambda_wrapper_def enabled_def traced_def run_def collab_returns
      finally_clause_returns)

theorem handler_exception_reraised_witness:
  "lambda_wrapper example_env handler_boom example_args [] fresh =
     (Inl (Exception ''boom''),
      \<lparr>already_wrapped = True, builtins_print = [],
       calls = [Create_span example_args, Span_start, Logger_debug ''wrapping the http request'']
               @ interception_points
               @ [Add_exception_event (Exception ''boom''), Span_end PyNone]\<rparr>)"
proof -
  have en: "enabled example_env"
    by (simp add: enabled_def environ_get_def py_lower_def example_env_def)
  have pre: "pre_run example_env example_args fresh =
      (None, \<lparr>already_wrapped = True, builtins_print = [],
              calls = [Create_span example_args, Span_start,
                       Logger_debug ''wrapping the http request''] @ interception_points\<rparr>)"
    by (simp add: pre_run_def seq_def enhance_print_def collab_def example_env_def fresh_def
        wrap_http_calls_def lumigo_safe_execute_def wrap_block_def wrap_function_wrapper_def
        logger_def interception_points_def)
  show ?thesis
    using handler_exception_reraised [OF en pre, of handler_boom "[]" "''boom''"]
    by (simp add: handler_boom_def example_env_def fresh_def)
qed

text \<open>
  When the trace context itself raises while the exception is recorded or the trace
  finalized, that exception is the one the caller sees.
\<close>

lemma tracing_exception_during_run:
  assumes "enabled e"
    and "pre_run e args s = (None, s1)"
    and "func args kw s1 = (Inl (Exception m), s2)"
    and "raises e (Add_exception_event (Exception m)) = None"
    and "raises e (Span_end PyNone) = Some y"
  shows "lambda_wrapper e func args kw s =
           (Inl y, s2\<lparr>calls := calls s2 @ [Add_exception_event (Exception m)]\<rparr>)"
  using assms
  by (simp add: lambda_wrapper_def enabled_def traced_def run_def collab_returns
      finally_clause_def seq_def collab_def)

section \<open>Properties of splitting and replacing\<close>

lemma prefix_bytes_contains: "prefix sep xs \<Longrightarrow> bytes_contains sep xs"
  by (cases xs) simp_all

lemma bytes_contains_iff: "bytes_contains sep xs \<longleftrightarrow> (\<exists>a b. xs = a @ sep @ b)"
proof (induction xs)
  case Nil
  then show ?case by auto
next
  case (Cons c cs)
  show ?case
  proof
    assume "bytes_contains sep (c # cs)"
    then consider "prefix sep (c # cs)" | "bytes_contains sep cs" by auto
    then show "\<exists>a b. c # cs = a @ sep @ b"
    proof cases
      case 1
      then obtain b where "c # cs = sep @ b" by (auto simp add: prefix_def)
      then have "c # cs = [] @ sep @ b" by simp
      then show ?thesis by blast
    next
      case 2
      with Cons.IH obtain a b where "cs = a @ sep @ b" by blast
      then have "c # cs = (c # a) @ sep @ b" by simp
      then show ?thesis by blast
    qed
  next
    assume "\<exists>a b. c # cs = a @ sep @ b"
    then obtain a b where ab: "c # cs = a @ sep @ b" by blast
    show "bytes_contains sep (c # cs)"
    proof (cases a)
      case Nil
      with ab have "prefix sep (c # cs)" by (simp add: prefix_def)
      then show ?thesis by simp
    next
      case (Cons x a')
      with ab have "cs = a' @ sep @ b" by simp
      with Cons.IH have "bytes_contains sep cs" by blast
      then show ?thesis by simp
    qed
  qed
qed

lemma bytes_contains_at: "bytes_contains sep (a @ sep @ b)"
  by (auto simp add: bytes_contains_iff)

lemma prefix_of_longer:
  assumes "prefix sep (x @ y)" and "length sep \<le> length x"
  shows "prefix sep x"
proof -
  from assms(1) consider "prefix sep x" | us where "sep = x @ us"
    by (auto simp add: prefix_append)
  then show ?thesis
  proof cases
    case 1
    then show ?thesis .
  next
    case 2
    with assms(2) have "us = []" by simp
    with 2 show ?thesis by simp
  qed
qed

lemma no_earlier_Nil: "sep \<noteq> [] \<Longrightarrow> no_earlier sep []"
proof -
  assume ne: "sep \<noteq> []"
  have False if "butlast sep = a @ sep @ b" for a b
  proof -
    from that have "length (butlast sep) = length (a @ sep @ b)" by simp
    then have "length sep - 1 = length a + length sep + length b" by simp
    moreover from ne have "0 < length sep" by simp
    ultimately show False by arith
  qed
  then show ?thesis
    by (auto simp add: no_earlier_def bytes_contains_iff)
qed

lemma no_earlier_Cons:
  assumes "sep \<noteq> []" and "no_earlier sep (c # a)"
  shows "\<not> prefix sep (c # a @ sep @ b)" and "no_earlier sep a"
proof -
  from assms(2) have np: "\<not> prefix sep (c # a @ butlast sep)"
    and ne: "\<not> bytes_contains sep (a @ butlast sep)"
    by (simp_all add: no_earlier_def)
  from ne show "no_earlier sep a" by (simp add: no_earlier_def)
  show "\<not> prefix sep (c # a @ sep @ b)"
  proof
    assume p: "prefix sep (c # a @ sep @ b)"
    have "c # a @ sep @ b = (c # a @ butlast sep) @ (last sep # b)"
      using assms(1) by simp
    with p have "prefix sep ((c # a @ butlast sep) @ (last sep # b))" by simp
    moreover have "length sep \<le> length (c # a @ butlast sep)"
      using assms(1) by (cases sep) simp_all
    ultimately have "prefix sep (c # a @ butlast sep)" by (rule prefix_of_longer)
    with np show False ..
  qed
qed

lemma py_split1_at:
  assumes "sep \<noteq> []" and "no_earlier sep a"
  shows "py_split1 sep (a @ sep @ b) = [a, b]"
  using assms(2)
proof (induction a)
  case Nil
  from assms(1) obtain c cs where "sep = c # cs" by (cases sep) auto
  then show ?case by simp
next
  case (Cons c a)
  from no_earlier_Cons [OF assms(1) Cons.prems]
  have "\<not> prefix sep (c # a @ sep @ b)" and "no_earlier sep a" by simp_all
  with Cons.IH show ?case by simp
qed

lemma py_replace_at:
  assumes "old \<noteq> []" and "no_earlier old a"
  shows "py_replace (a @ old @ b) old = a @ py_replace b old"
  using assms(2)
proof (induction a)
  case Nil
  from assms(1) obtain c cs where "old = c # cs" by (cases old) auto
  then show ?case by simp
next
  case (Cons c a)
  from no_earlier_Cons [OF assms(1) Cons.prems]
  have "\<not> prefix old (c # a @ old @ b)" and "no_earlier old a" by simp_all
  with Cons.IH show ?case by simp
qed

lemma py_replace_absent: "\<not> bytes_contains old t \<Longrightarrow> py_replace t old = t"
  by (induction t) auto

text \<open>
  A string cut at every occurrence of \<open>old\<close>: \<^verbatim>\<open>replace\<close> drops each of them, wherever it
  stands, and keeps the pieces between them.
\<close>

lemma py_replace_pieces:
  assumes "old \<noteq> []" and "\<forall>x \<in> set xs. no_earlier old x" and "\<not> bytes_contains old t"
  shows "py_replace (concat (map (\<lambda>x. x @ old) xs) @ t) old = concat xs @ t"
  using assms(2)
proof (induction xs)
  case Nil
  with assms(3) show ?case by (simp add: py_replace_absent)
next
  case (Cons x xs)
  then have "no_earlier old x" and "\<forall>y \<in> set xs. no_earlier old y" by simp_all
  with Cons.IH assms(1) show ?case by (simp add: py_replace_at)
qed

section \<open>Properties of the request wrapper: the arguments are kept\<close>

lemma snd_seq:
  "snd (seq a b f) = (if fst (a f) = None then snd (b (snd (a f))) else snd (a f))"
  by (cases "a f") (auto simp add: seq_def)

lemma fst_seq:
  "fst (seq a b f) = (if fst (a f) = None then fst (b (snd (a f))) else fst (a f))"
  by (cases "a f") (auto simp add: seq_def)

lemma l_args_logger [simp]: "l_args (logger c f) = l_args f"
  by (simp add: logger_def)

lemma l_args_collab [simp]: "l_args (snd (collab e c f)) = l_args f"
  by (simp add: collab_def split: option.splits)

lemma l_args_safe:
  assumes "l_args (snd (blk f)) = l_args f"
  shows "l_args (snd (lumigo_safe_execute n blk f)) = l_args f"
proof (cases "blk f")
  case (Pair x f')
  with assms show ?thesis
    by (cases x) (auto simp add: lumigo_safe_execute_def split: exn.splits)
qed

lemma fst_safe:
  assumes "\<And>b. fst (blk f) \<noteq> Some (BaseException b)"
  shows "fst (lumigo_safe_execute n blk f) = None"
proof (cases "blk f")
  case (Pair x f')
  with assms show ?thesis
    by (cases x) (auto simp add: lumigo_safe_execute_def split: exn.splits)
qed

lemma restored [simp]: "io\<lparr>pos := p\<rparr>\<lparr>pos := pos io\<rparr> = io"
  by simp

lemma parse_requested_streams_args:
  assumes "l_data f = safe_get (l_args f) 0"
  shows "l_args (snd (parse_requested_streams f)) = l_args f"
proof (cases "l_data f")
  case (PyBytesIO io)
  with assms obtain rest where args: "l_args f = PyBytesIO io # rest"
    by (cases "l_args f") (auto simp add: safe_get_def split: if_splits)
  show ?thesis
    by (simp add: parse_requested_streams_def PyBytesIO args tell_def read_def seek_def Let_def)
qed (simp_all add: parse_requested_streams_def)

lemma parse_requested_streams_exn:
  "fst (parse_requested_streams f) \<noteq> Some (BaseException b)"
  by (simp add: parse_requested_streams_def tell_def read_def seek_def Let_def
      split: pyval.splits)

lemma parse_request_args: "l_args (snd (parse_request e instance f)) = l_args f"
  by (simp add: parse_request_def Let_def
      split: pyval.splits list.splits sum.splits option.splits)

lemma parse_request_exn:
  assumes "only_exceptions e"
  shows "fst (parse_request e instance f) \<noteq> Some (BaseException b)"
  using assms
  by (auto simp add: parse_request_def Let_def only_exceptions_def decode_ascii_def
      split: pyval.splits list.splits sum.splits option.splits if_splits)

lemma add_request_event_args: "l_args (snd (add_request_event e f)) = l_args f"
  by (simp add: add_request_event_def)

lemma add_request_event_exn:
  assumes "only_exceptions e"
  shows "fst (add_request_event e f) \<noteq> Some (BaseException b)"
  using assms
  by (auto simp add: add_request_event_def collab_def only_exceptions_def split: option.splits)

text \<open>
  On every path through lines 30 to 68 the arguments are, at line 70, the ones the wrapper
  was called with, a stream among them being back at its position.
\<close>

lemma before_send_args: "l_args (snd (before_send e instance (enter s args))) = args"
proof -
  have "l_data (enter s args) = safe_get (l_args (enter s args)) 0"
    by (simp add: enter_def)
  then have "l_args (snd (parse_requested_streams (enter s args))) = l_args (enter s args)"
    by (rule parse_requested_streams_args)
  then have "l_args (snd (lumigo_safe_execute ''parse requested streams'' parse_requested_streams
      (enter s args))) = l_args (enter s args)"
    by (rule l_args_safe)
  then show ?thesis
    by (simp add: before_send_def snd_seq l_args_safe parse_request_args add_request_event_args
        enter_def)
qed

lemma before_send_returns:
  assumes "only_exceptions e"
  shows "fst (before_send e instance f) = None"
  using assms
  by (simp add: before_send_def fst_seq fst_safe parse_requested_streams_exn parse_request_exn
      add_request_event_exn)

lemma request_wrapper_sends:
  assumes "fst (before_send e instance (enter s args)) = None"
  shows "request_wrapper e func instance args kw s =
           after_send e (func args kw (send_state e instance args s))"
proof (cases "before_send e instance (enter s args)")
  case (Pair x f)
  with assms have "x = None" by simp
  moreover from Pair have "l_args f = args"
    using before_send_args [of e "instance" s args] by simp
  ultimately show ?thesis
    using Pair by (simp add: request_wrapper_def send_state_def)
qed

section \<open>Properties of the request wrapper: unparsed requests and streams\<close>

lemma splitters_nonempty: "BODY_HEADER_SPLITTER \<noteq> []" "FLAGS_HEADER_SPLITTER \<noteq> []" "CRLF \<noteq> []"
  by (simp_all add: BODY_HEADER_SPLITTER_def FLAGS_HEADER_SPLITTER_def CRLF_def)

lemma state_rebuilt:
  "\<lparr>already_wrapped = already_wrapped s, builtins_print = builtins_print s, calls = c\<rparr> =
     (s :: state)\<lparr>calls := c\<rparr>"
  by simp

lemma safe_execute_returns: "blk f = (None, f') \<Longrightarrow> lumigo_safe_execute n blk f = (None, f')"
  by (simp add: lumigo_safe_execute_def)

lemma send_state_unparsed:
  assumes "args = PyBytes d # rest" and "\<not> bytes_contains BODY_HEADER_SPLITTER d"
    and "raises e (Add_unparsed_request
           \<lparr>req_host = instance_host instance, req_method = instance_method instance,
            req_uri = None, req_headers = HNone, req_body = PyBytes d\<rparr>) = None"
  shows "before_send e instance (enter s args) =
          (None, (enter s args)\<lparr>
             calls := calls s @ [Add_unparsed_request
               \<lparr>req_host = instance_host instance, req_method = instance_method instance,
                req_uri = None, req_headers = HNone, req_body = PyBytes d\<rparr>],
             l_host := instance_host instance, l_method := instance_method instance\<rparr>)"
  using assms
  by (simp add: before_send_def seq_def lumigo_safe_execute_def parse_requested_streams_def
      parse_request_def add_request_event_def collab_def enter_def safe_get_def)

text \<open>
  C5. A bytes buffer without the double CRLF is recorded by \<^verbatim>\<open>add_unparsed_request\<close>, with
  the connection's host and method, no URI, no headers and the buffer itself as body; the
  wrapped \<^verbatim>\<open>send\<close> is then called with the original arguments. For any arguments, when
  nothing but instances of \<^verbatim>\<open>Exception\<close> is raised on the way, the wrapped \<^verbatim>\<open>send\<close> is
  called with the original arguments, whether the request was parsed, unparsed or parsing
  failed.
\<close>

theorem unparsed_request_recorded:
  "(\<not> bytes_contains BODY_HEADER_SPLITTER d
      \<and> raises e (Add_unparsed_request
           \<lparr>req_host = instance_host instance, req_method = instance_method instance,
            req_uri = None, req_headers = HNone, req_body = PyBytes d\<rparr>) = None \<longrightarrow>
      request_wrapper e func instance (PyBytes d # rest) kw s =
        after_send e (func (PyBytes d # rest) kw
          (s\<lparr>calls := calls s @ [Add_unparsed_request
             \<lparr>req_host = instance_host instance, req_method = instance_method instance,
              req_uri = None, req_headers = HNone, req_body = PyBytes d\<rparr>]\<rparr>)))
   \<and> (only_exceptions e \<longrightarrow>
        request_wrapper e func instance args kw s =
          after_send e (func args kw (send_state e instance args s)))"
proof (intro conjI impI)
  assume a: "\<not> bytes_contains BODY_HEADER_SPLITTER d
      \<and> raises e (Add_unparsed_request
           \<lparr>req_host = instance_host instance, req_method = instance_method instance,
            req_uri = None, req_headers = HNone, req_body = PyBytes d\<rparr>) = None"
  then have "before_send e instance (enter s (PyBytes d # rest)) =
          (None, (enter s (PyBytes d # rest))\<lparr>
             calls := calls s @ [Add_unparsed_request
               \<lparr>req_host = instance_host instance, req_method = instance_method instance,
                req_uri = None, req_headers = HNone, req_body = PyBytes d\<rparr>],
             l_host := instance_host instance, l_method := instance_method instance\<rparr>)"
    by (intro send_state_unparsed) simp_all
  then show "request_wrapper e func instance (PyBytes d # rest) kw s =
        after_send e (func (PyBytes d # rest) kw
          (s\<lparr>calls := calls s @ [Add_unparsed_request
             \<lparr>req_host = instance_host instance, req_method = instance_method instance,
              req_uri = None, req_headers = HNone, req_body = PyBytes d\<rparr>]\<rparr>))"
    by (simp add: request_wrapper_def enter_def leave_def state_rebuilt)
next
  assume "only_exceptions e"
  then have "fst (before_send e instance (enter s args)) = None"
    by (rule before_send_returns)
  then show "request_wrapper e func instance args kw s =
          after_send e (func args kw (send_state e instance args s))"
    by (rule request_wrapper_sends)
qed

lemma only_exceptions_example: "only_exceptions example_env"
  by (simp add: only_exceptions_def example_env_def simple_parse_headers_def)

theorem unparsed_request_recorded_witness:
  "request_wrapper example_env handler_ok example_connection [PyBytes ''name=value''] [] fresh =
     (Inr (PyStr ''ok''),
      fresh\<lparr>calls := [Add_unparsed_request
                 \<lparr>req_host = Some ''example.com'', req_method = Some ''GET'', req_uri = None,
                  req_headers = HNone, req_body = PyBytes ''name=value''\<rparr>,
               Update_event_end_time]\<rparr>)
   \<and> fst (request_wrapper example_env handler_ok (example_connection\<lparr>instance_method := None\<rparr>)
            [PyBytes example_request] [] fresh) = Inr (PyStr ''ok'')"
  using unparsed_request_recorded [of "''name=value''" example_env example_connection handler_ok
      "[]" "[]" fresh "[]"]
    unparsed_request_recorded [of "''name=value''" example_env
      "example_connection\<lparr>instance_method := None\<rparr>" handler_ok
      "[]" "[]" fresh "[PyBytes example_request]"]
    only_exceptions_example
  by (simp add: BODY_HEADER_SPLITTER_def CRLF_def example_env_def example_connection_def
      handler_ok_def after_send_def lumigo_safe_execute_def collab_def fresh_def)

text \<open>
  C6. For a \<^verbatim>\<open>BytesIO\<close> as first argument, on every path through the lines before the
  wrapped \<^verbatim>\<open>send\<close>, the arguments at line 70 are the original ones: the stream is at the
  position it had, with its buffer untouched. An open stream is read from that position
  for at most 1024 bytes and then sought back; a closed one raises at \<^verbatim>\<open>tell\<close>, before
  anything is read. The wrapped \<^verbatim>\<open>send\<close> is called with these arguments.
\<close>

theorem stream_position_restored:
  "l_args (snd (before_send e instance (enter s (PyBytesIO io # rest)))) = PyBytesIO io # rest
   \<and> (\<not> closed io \<longrightarrow>
        (\<exists>chunk io1. read io MAX_READ_SIZE = Inr (chunk, io1)
           \<and> chunk = take 1024 (drop (pos io) (buf io)) \<and> length chunk \<le> 1024
           \<and> pos io1 = pos io + length chunk \<and> seek io1 (pos io) = Inr io)
        \<and> parse_requested_streams (enter s (PyBytesIO io # rest)) =
            (None, (enter s (PyBytesIO io # rest))
                     \<lparr>l_data := PyBytes (take 1024 (drop (pos io) (buf io)))\<rparr>))
   \<and> (closed io \<longrightarrow>
        parse_requested_streams (enter s (PyBytesIO io # rest)) =
          (Some (Exception ''ValueError''), enter s (PyBytesIO io # rest)))
   \<and> (only_exceptions e \<longrightarrow>
        request_wrapper e func instance (PyBytesIO io # rest) kw s =
          after_send e (func (PyBytesIO io # rest) kw
                          (send_state e instance (PyBytesIO io # rest) s)))"
proof (intro conjI impI)
  show "l_args (snd (before_send e instance (enter s (PyBytesIO io # rest)))) = PyBytesIO io # rest"
    by (rule before_send_args)
next
  assume "\<not> closed io"
  then show "\<exists>chunk io1. read io MAX_READ_SIZE = Inr (chunk, io1)
           \<and> chunk = take 1024 (drop (pos io) (buf io)) \<and> length chunk \<le> 1024
           \<and> pos io1 = pos io + length chunk \<and> seek io1 (pos io) = Inr io"
    by (simp add: read_def seek_def MAX_READ_SIZE_def Let_def)
next
  assume "\<not> closed io"
  then show "parse_requested_streams (enter s (PyBytesIO io # rest)) =
            (None, (enter s (PyBytesIO io # rest))
                     \<lparr>l_data := PyBytes (take 1024 (drop (pos io) (buf io)))\<rparr>)"
    by (simp add: parse_requested_streams_def enter_def safe_get_def tell_def read_def seek_def
        MAX_READ_SIZE_def Let_def)
next
  assume "closed io"
  then show "parse_requested_streams (enter s (PyBytesIO io # rest)) =
          (Some (Exception ''ValueError''), enter s (PyBytesIO io # rest))"
    by (simp add: parse_requested_streams_def enter_def safe_get_def tell_def)
next
  assume "only_exceptions e"
  then have "fst (before_send e instance (enter s (PyBytesIO io # rest))) = None"
    by (rule before_send_returns)
  then show "request_wrapper e func instance (PyBytesIO io # rest) kw s =
          after_send e (func (PyBytesIO io # rest) kw
                          (send_state e instance (PyBytesIO io # rest) s))"
    by (rule request_wrapper_sends)
qed

theorem stream_position_restored_witness:
  "l_args (snd (before_send example_env example_connection (enter fresh [PyBytesIO example_stream])))
     = [PyBytesIO example_stream]
   \<and> parse_requested_streams (enter fresh [PyBytesIO example_stream]) =
       (None, (enter fresh [PyBytesIO example_stream])\<lparr>l_data := PyBytes ''456789''\<rparr>)
   \<and> parse_requested_streams (enter fresh [PyBytesIO (example_stream\<lparr>closed := True\<rparr>)]) =
       (Some (Exception ''ValueError''), enter fresh [PyBytesIO (example_stream\<lparr>closed := True\<rparr>)])
   \<and> fst (request_wrapper example_env handler_ok example_connection
            [PyBytesIO example_stream] [] fresh) = Inr (PyStr ''ok'')"
  using stream_position_restored [of example_env example_connection fresh example_stream "[]"
      handler_ok "[]"]
    stream_position_restored [of example_env example_connection fresh
      "example_stream\<lparr>closed := True\<rparr>" "[]" handler_ok "[]"]
    only_exceptions_example
  by (simp add: example_stream_def handler_ok_def after_send_def lumigo_safe_execute_def
      collab_def example_env_def)

section \<open>Properties of the request wrapper: parsed requests\<close>

lemma parse_request_parsed:
  assumes "l_data f = PyBytes (line @ CRLF @ h2 @ BODY_HEADER_SPLITTER @ b)"
    and "no_earlier BODY_HEADER_SPLITTER (line @ CRLF @ h2)"
    and "no_earlier CRLF line"
    and "list_all (\<lambda>c. \<not> digit7 c) line"
    and "parse_headers e h2 = Inr msg"
    and "l_method f = Some m"
  shows "parse_request e instance f =
           (None, f\<lparr>l_headers := HMsg msg, l_body := PyBytes b,
                    l_uri := Some (format_opt (l_host f) @
                               path_and_query_params line m (instance_http_vsn_str instance)),
                    l_host := (if l_host f = None \<or> l_host f = Some []
                               then msg_get msg ''Host'' else l_host f)\<rparr>)"
proof -
  let ?h = "line @ CRLF @ h2"
  have d: "line @ CRLF @ h2 @ BODY_HEADER_SPLITTER @ b = ?h @ BODY_HEADER_SPLITTER @ b"
    by simp
  have c1: "bytes_contains BODY_HEADER_SPLITTER (line @ CRLF @ h2 @ BODY_HEADER_SPLITTER @ b)"
    unfolding d by (rule bytes_contains_at)
  have s1: "py_split1 BODY_HEADER_SPLITTER (line @ CRLF @ h2 @ BODY_HEADER_SPLITTER @ b) = [?h, b]"
    unfolding d by (rule py_split1_at [OF splitters_nonempty(1) assms(2)])
  have c2: "bytes_contains FLAGS_HEADER_SPLITTER ?h"
    unfolding FLAGS_HEADER_SPLITTER_def by (rule bytes_contains_at)
  have s2: "py_split1 FLAGS_HEADER_SPLITTER ?h = [line, h2]"
    unfolding FLAGS_HEADER_SPLITTER_def by (rule py_split1_at [OF splitters_nonempty(3) assms(3)])
  show ?thesis
    by (simp add: parse_request_def assms(1,4,5,6) c1 s1 c2 s2 decode_ascii_def Let_def)
qed

lemma before_send_parsed:
  assumes "no_earlier BODY_HEADER_SPLITTER (line @ CRLF @ h2)"
    and "no_earlier CRLF line"
    and "list_all (\<lambda>c. \<not> digit7 c) line"
    and "parse_headers e h2 = Inr msg" and "msg \<noteq> []"
    and "instance_method instance = Some m"
    and "req = \<lparr>req_host = (if instance_host instance = None \<or> instance_host instance = Some []
                             then msg_get msg ''Host'' else instance_host instance),
                 req_method = Some m,
                 req_uri = Some (format_opt (instance_host instance) @
                             path_and_query_params line m (instance_http_vsn_str instance)),
                 req_headers = HMsg msg, req_body = PyBytes b\<rparr>"
    and "raises e (Add_request_event req) = None"
  shows "fst (before_send e instance
                (enter s (PyBytes (line @ CRLF @ h2 @ BODY_HEADER_SPLITTER @ b) # rest))) = None
    \<and> send_state e instance (PyBytes (line @ CRLF @ h2 @ BODY_HEADER_SPLITTER @ b) # rest) s =
        s\<lparr>calls := calls s @ [Add_request_event req]\<rparr>"
proof -
  define f0 where "f0 = enter s (PyBytes (line @ CRLF @ h2 @ BODY_HEADER_SPLITTER @ b) # rest)"
  define f1 where "f1 = f0\<lparr>l_host := instance_host instance, l_method := instance_method instance,
                  l_headers := HNone, l_body := PyNone, l_uri := None\<rparr>"
  define f2 where "f2 = f1\<lparr>l_headers := HMsg msg, l_body := PyBytes b,
                  l_uri := Some (format_opt (l_host f1) @
                             path_and_query_params line m (instance_http_vsn_str instance)),
                  l_host := (if l_host f1 = None \<or> l_host f1 = Some []
                             then msg_get msg ''Host'' else l_host f1)\<rparr>"
  define f3 where "f3 = f2\<lparr>calls := calls f2 @ [Add_request_event req]\<rparr>"
  have p1: "lumigo_safe_execute ''parse requested streams'' parse_requested_streams f0 = (None, f0)"
    by (simp add: f0_def lumigo_safe_execute_def parse_requested_streams_def enter_def safe_get_def)
  have "parse_request e instance f1 = (None, f2)"
    unfolding f2_def
    by (rule parse_request_parsed [OF _ assms(1,2,3,4)])
      (simp_all add: f1_def f0_def enter_def safe_get_def assms(6))
  then have p2: "lumigo_safe_execute ''parse request'' (parse_request e instance) f1 = (None, f2)"
    by (rule safe_execute_returns)
  have rq: "\<lparr>req_host = l_host f2, req_method = l_method f2, req_uri = l_uri f2,
             req_headers = l_headers f2, req_body = l_body f2\<rparr> = req"
    unfolding assms(7) by (simp add: f2_def f1_def f0_def enter_def assms(6))
  have "truthy (l_headers f2)"
    using assms(5) by (simp add: f2_def)
  then have "add_request_event e f2 = collab e (Add_request_event req) f2"
    unfolding add_request_event_def rq by (simp only: if_True)
  also have "\<dots> = (None, f3)"
    unfolding f3_def using assms(8) by (rule collab_returns)
  finally have p3: "lumigo_safe_execute ''add request event'' (add_request_event e) f2 = (None, f3)"
    by (rule safe_execute_returns)
  have "before_send e instance f0 =
      seq (\<lambda>f. (None, f\<lparr>l_host := instance_host instance, l_method := instance_method instance,
                      l_headers := HNone, l_body := PyNone, l_uri := None\<rparr>))
        (seq (lumigo_safe_execute ''parse request'' (parse_request e instance))
             (lumigo_safe_execute ''add request event'' (add_request_event e))) f0"
    unfolding before_send_def by (rule seq_returns) (rule p1)
  also have "\<dots> = seq (lumigo_safe_execute ''parse request'' (parse_request e instance))
             (lumigo_safe_execute ''add request event'' (add_request_event e)) f1"
    by (rule seq_returns) (simp add: f1_def)
  also have "\<dots> = lumigo_safe_execute ''add request event'' (add_request_event e) f2"
    by (rule seq_returns) (rule p2)
  finally have bs: "before_send e instance f0 = (None, f3)"
    by (simp add: p3)
  have "leave f3 = s\<lparr>calls := calls s @ [Add_request_event req]\<rparr>"
    by (simp add: f3_def f2_def f1_def f0_def leave_def enter_def state_rebuilt)
  with bs show ?thesis
    by (simp add: send_state_def f0_def)
qed

text \<open>
  C4. A bytes buffer made of a request line, CRLF, a header block, the double CRLF and a
  body, the two separators being first occurrences, with an ASCII request line, a known
  method and a header block that \<^verbatim>\<open>parse_headers\<close> turns into at least one field: the
  request is recorded by \<^verbatim>\<open>add_request_event\<close>. Its URI is the host followed by the request
  line from which the method and the protocol version were removed and whitespace trimmed;
  its host is the connection's, or the \<^verbatim>\<open>Host\<close> field when the connection's is \<^verbatim>\<open>None\<close> or
  empty; its headers are the parsed fields and its body what follows the double CRLF. The
  wrapped \<^verbatim>\<open>send\<close> is then called with the original arguments.
\<close>

theorem parsed_request_recorded:
  assumes "no_earlier BODY_HEADER_SPLITTER (line @ CRLF @ h2)"
    and "no_earlier CRLF line"
    and "list_all (\<lambda>c. \<not> digit7 c) line"
    and "parse_headers e h2 = Inr msg" and "msg \<noteq> []"
    and "instance_method instance = Some m"
    and "req = \<lparr>req_host = (if instance_host instance = None \<or> instance_host instance = Some []
                             then msg_get msg ''Host'' else instance_host instance),
                 req_method = Some m,
                 req_uri = Some (format_opt (instance_host instance) @
                             py_strip (py_replace (py_replace line m)
                                         (instance_http_vsn_str instance))),
                 req_headers = HMsg msg, req_body = PyBytes b\<rparr>"
    and "raises e (Add_request_event req) = None"
  shows "request_wrapper e func instance
           (PyBytes (line @ CRLF @ h2 @ BODY_HEADER_SPLITTER @ b) # rest) kw s =
         after_send e (func (PyBytes (line @ CRLF @ h2 @ BODY_HEADER_SPLITTER @ b) # rest) kw
                         (s\<lparr>calls := calls s @ [Add_request_event req]\<rparr>))"
proof -
  from assms(7) have r: "req = \<lparr>req_host = (if instance_host instance = None \<or> instance_host instance = Some []
                             then msg_get msg ''Host'' else instance_host instance),
                 req_method = Some m,
                 req_uri = Some (format_opt (instance_host instance) @
                             path_and_query_params line m (instance_http_vsn_str instance)),
                 req_headers = HMsg msg, req_body = PyBytes b\<rparr>"
    by (simp add: path_and_query_params_def)
  from before_send_parsed [OF assms(1,2,3,4,5,6) r assms(8), of s rest]
  show ?thesis
    by (simp add: request_wrapper_sends)
qed

theorem parsed_request_recorded_witness:
  "request_wrapper example_env handler_ok example_connection [PyBytes example_request] [] fresh =
     (Inr (PyStr ''ok''),
      fresh\<lparr>calls := [Add_request_event
                 \<lparr>req_host = Some ''example.com'', req_method = Some ''GET'',
                  req_uri = Some ''example.com/foo?x=1'',
                  req_headers = HMsg [(''Host'', ''example.com'')], req_body = PyBytes []\<rparr>,
               Update_event_end_time]\<rparr>)
   \<and> request_wrapper example_env handler_ok (example_connection\<lparr>instance_host := None\<rparr>)
       [PyBytes example_request] [] fresh =
     (Inr (PyStr ''ok''),
      fresh\<lparr>calls := [Add_request_event
                 \<lparr>req_host = Some ''example.com'', req_method = Some ''GET'',
                  req_uri = Some ''None/foo?x=1'',
                  req_headers = HMsg [(''Host'', ''example.com'')], req_body = PyBytes []\<rparr>,
               Update_event_end_time]\<rparr>)"
proof -
  have h1: "no_earlier BODY_HEADER_SPLITTER (''GET /foo?x=1 HTTP/1.1'' @ CRLF @ ''Host: example.com'')"
    by (simp add: no_earlier_def BODY_HEADER_SPLITTER_def CRLF_def)
  have h2: "no_earlier CRLF ''GET /foo?x=1 HTTP/1.1''"
    by (simp add: no_earlier_def CRLF_def)
  have h3: "list_all (\<lambda>c. \<not> digit7 c) ''GET /foo?x=1 HTTP/1.1''"
    by simp
  have h4: "parse_headers example_env ''Host: example.com'' = Inr [(''Host'', ''example.com'')]"
    by (simp add: example_env_def simple_parse_headers_def CRLF_def header_field_def
        map_filter_def py_strip_def py_isspace_def)
  have h5: "[(''Host'', ''example.com'')] \<noteq> []"
    by simp
  have r1: "\<lparr>req_host = Some ''example.com'', req_method = Some ''GET'',
              req_uri = Some ''example.com/foo?x=1'',
              req_headers = HMsg [(''Host'', ''example.com'')], req_body = PyBytes []\<rparr> =
      \<lparr>req_host = (if instance_host example_connection = None
                        \<or> instance_host example_connection = Some []
                     then msg_get [(''Host'', ''example.com'')] ''Host''
                     else instance_host example_connection),
       req_method = Some ''GET'',
       req_uri = Some (format_opt (instance_host example_connection) @
                   py_strip (py_replace (py_replace ''GET /foo?x=1 HTTP/1.1'' ''GET'')
                               (instance_http_vsn_str example_connection))),
       req_headers = HMsg [(''Host'', ''example.com'')], req_body = PyBytes []\<rparr>"
    by (simp add: example_connection_def py_strip_def py_isspace_def)
  have r2: "\<lparr>req_host = Some ''example.com'', req_method = Some ''GET'',
              req_uri = Some ''None/foo?x=1'',
              req_headers = HMsg [(''Host'', ''example.com'')], req_body = PyBytes []\<rparr> =
      \<lparr>req_host = (if instance_host (example_connection\<lparr>instance_host := None\<rparr>) = None
                        \<or> instance_host (example_connection\<lparr>instance_host := None\<rparr>) = Some []
                     then msg_get [(''Host'', ''example.com'')] ''Host''
                     else instance_host (example_connection\<lparr>instance_host := None\<rparr>)),
       req_method = Some ''GET'',
       req_uri = Some (format_opt (instance_host (example_connection\<lparr>instance_host := None\<rparr>)) @
                   py_strip (py_replace (py_replace ''GET /foo?x=1 HTTP/1.1'' ''GET'')
                      (instance_http_vsn_str (example_connection\<lparr>instance_host := None\<rparr>)))),
       req_headers = HMsg [(''Host'', ''example.com'')], req_body = PyBytes []\<rparr>"
    by (simp add: example_connection_def py_strip_def py_isspace_def msg_get_def py_lower_def
        lower_char_def)
  have m1: "instance_method example_connection = Some ''GET''"
    and m2: "instance_method (example_connection\<lparr>instance_host := None\<rparr>) = Some ''GET''"
    by (simp_all add: example_connection_def)
  have ok: "raises example_env c = None" for c
    by (simp add: example_env_def)
  show ?thesis
    using parsed_request_recorded [OF h1 h2 h3 h4 h5 m1 r1 ok,
        where func = handler_ok and rest = "[]" and kw = "[]" and s = fresh]
      parsed_request_recorded [OF h1 h2 h3 h4 h5 m2 r2 ok,
        where func = handler_ok and rest = "[]" and kw = "[]" and s = fresh]
    by (simp add: example_request_def BODY_HEADER_SPLITTER_def handler_ok_def after_send_def
        lumigo_safe_execute_def collab_def ok fresh_def)
qed

text \<open>
  C10. The method and the protocol version are removed by \<^verbatim>\<open>str.replace\<close> wherever they
  stand in the request line. With the request line cut at every occurrence of the method
  into the pieces \<open>xs\<close> and the rest \<open>t\<close>, and what is left cut at every occurrence of the
  version into the pieces \<open>ys\<close> and the rest \<open>u\<close>, the recorded URI is the host followed by
  the trimmed concatenation of \<open>ys\<close> and \<open>u\<close>. The wrapped \<^verbatim>\<open>send\<close> is called with the
  original arguments, so the bytes sent are the ones given.
\<close>

theorem every_occurrence_removed:
  assumes "no_earlier BODY_HEADER_SPLITTER (line @ CRLF @ h2)"
    and "no_earlier CRLF line"
    and "list_all (\<lambda>c. \<not> digit7 c) line"
    and "parse_headers e h2 = Inr msg" and "msg \<noteq> []"
    and "instance_method instance = Some m" and "m \<noteq> []"
    and "line = concat (map (\<lambda>x. x @ m) xs) @ t"
    and "\<forall>x \<in> set xs. no_earlier m x" and "\<not> bytes_contains m t"
    and "instance_http_vsn_str instance = v" and "v \<noteq> []"
    and "concat xs @ t = concat (map (\<lambda>y. y @ v) ys) @ u"
    and "\<forall>y \<in> set ys. no_earlier v y" and "\<not> bytes_contains v u"
    and "req = \<lparr>req_host = (if instance_host instance = None \<or> instance_host instance = Some []
                             then msg_get msg ''Host'' else instance_host instance),
                 req_method = Some m,
                 req_uri = Some (format_opt (instance_host instance) @ py_strip (concat ys @ u)),
                 req_headers = HMsg msg, req_body = PyBytes b\<rparr>"
    and "raises e (Add_request_event req) = None"
  shows "path_and_query_params line m v = py_strip (concat ys @ u)
    \<and> request_wrapper e func instance
           (PyBytes (line @ CRLF @ h2 @ BODY_HEADER_SPLITTER @ b) # rest) kw s =
         after_send e (func (PyBytes (line @ CRLF @ h2 @ BODY_HEADER_SPLITTER @ b) # rest) kw
                         (s\<lparr>calls := calls s @ [Add_request_event req]\<rparr>))"
proof -
  have "py_replace line m = concat xs @ t"
    unfolding assms(8) by (rule py_replace_pieces [OF assms(7,9,10)])
  moreover have "py_replace (concat xs @ t) v = concat ys @ u"
    unfolding assms(13) by (rule py_replace_pieces [OF assms(12,14,15)])
  ultimately have pq: "path_and_query_params line m v = py_strip (concat ys @ u)"
    by (simp add: path_and_query_params_def)
  then have r: "req = \<lparr>req_host = (if instance_host instance = None \<or> instance_host instance = Some []
                             then msg_get msg ''Host'' else instance_host instance),
                 req_method = Some m,
                 req_uri = Some (format_opt (instance_host instance) @
                             path_and_query_params line m (instance_http_vsn_str instance)),
                 req_headers = HMsg msg, req_body = PyBytes b\<rparr>"
    by (simp add: assms(11,16))
  from before_send_parsed [OF assms(1,2,3,4,5,6) r assms(17), of s rest] pq
  show ?thesis
    by (simp add: request_wrapper_sends)
qed

theorem every_occurrence_removed_witness:
  "path_and_query_params ''GET /GETters HTTP/1.1'' ''GET'' ''HTTP/1.1'' = ''/ters''
   \<and> request_wrapper example_env handler_ok example_connection
       [PyBytes (''GET /GETters HTTP/1.1'' @ CRLF @ ''Host: example.com'' @ CRLF @ CRLF)] [] fresh =
     (Inr (PyStr ''ok''),
      fresh\<lparr>calls := [Add_request_event
                 \<lparr>req_host = Some ''example.com'', req_method = Some ''GET'',
                  req_uri = Some ''example.com/ters'',
                  req_headers = HMsg [(''Host'', ''example.com'')], req_body = PyBytes []\<rparr>,
               Update_event_end_time]\<rparr>)"
proof -
  have h1: "no_earlier BODY_HEADER_SPLITTER (''GET /GETters HTTP/1.1'' @ CRLF @ ''Host: example.com'')"
    by (simp add: no_earlier_def BODY_HEADER_SPLITTER_def CRLF_def)
  have h2: "no_earlier CRLF ''GET /GETters HTTP/1.1''"
    by (simp add: no_earlier_def CRLF_def)
  have h3: "list_all (\<lambda>c. \<not> digit7 c) ''GET /GETters HTTP/1.1''"
    by simp
  have h4: "parse_headers example_env ''Host: example.com'' = Inr [(''Host'', ''example.com'')]"
    by (simp add: example_env_def simple_parse_headers_def CRLF_def header_field_def
        map_filter_def py_strip_def py_isspace_def)
  have h5: "[(''Host'', ''example.com'')] \<noteq> []"
    by simp
  have m1: "instance_method example_connection = Some ''GET''"
    by (simp add: example_connection_def)
  have m2: "''GET'' \<noteq> []"
    by simp
  have c1: "''GET /GETters HTTP/1.1'' = concat (map (\<lambda>x. x @ ''GET'') [[], '' /'']) @ ''ters HTTP/1.1''"
    by simp
  have c2: "\<forall>x \<in> set [[], '' /'']. no_earlier ''GET'' x"
    by (simp add: no_earlier_def)
  have c3: "\<not> bytes_contains ''GET'' ''ters HTTP/1.1''"
    by simp
  have v1: "instance_http_vsn_str example_connection = ''HTTP/1.1''"
    by (simp add: example_connection_def)
  have v2: "''HTTP/1.1'' \<noteq> []"
    by simp
  have d1: "concat [[], '' /''] @ ''ters HTTP/1.1'' = concat (map (\<lambda>y. y @ ''HTTP/1.1'') ['' /ters '']) @ []"
    by simp
  have d2: "\<forall>y \<in> set ['' /ters '']. no_earlier ''HTTP/1.1'' y"
    by (simp add: no_earlier_def)
  have d3: "\<not> bytes_contains ''HTTP/1.1'' []"
    by simp
  have st: "py_strip (concat ['' /ters ''] @ []) = ''/ters''"
    by (simp add: py_strip_def py_isspace_def)
  have r: "\<lparr>req_host = Some ''example.com'', req_method = Some ''GET'',
              req_uri = Some ''example.com/ters'',
              req_headers = HMsg [(''Host'', ''example.com'')], req_body = PyBytes []\<rparr> =
      \<lparr>req_host = (if instance_host example_connection = None
                        \<or> instance_host example_connection = Some []
                     then msg_get [(''Host'', ''example.com'')] ''Host''
                     else instance_host example_connection),
       req_method = Some ''GET'',
       req_uri = Some (format_opt (instance_host example_connection) @
                   py_strip (concat ['' /ters ''] @ [])),
       req_headers = HMsg [(''Host'', ''example.com'')], req_body = PyBytes []\<rparr>"
    unfolding st by (simp add: example_connection_def)
  have ok: "raises example_env c = None" for c
    by (simp add: example_env_def)
  show ?thesis
    using every_occurrence_removed [OF h1 h2 h3 h4 h5 m1 m2 c1 c2 c3 v1 v2 d1 d2 d3 r ok,
        where func = handler_ok and rest = "[]" and kw = "[]" and s = fresh]
    unfolding st
    by (simp add: BODY_HEADER_SPLITTER_def handler_ok_def after_send_def
        lumigo_safe_execute_def collab_def ok fresh_def)
qed

section \<open>Properties of the header injector\<close>

text \<open>With a dictionary under \<^verbatim>\<open>headers\<close>, the trace header is set and the call made.\<close>

lemma putheader_injects:
  assumes "raises e Get_patched_root = None" and "map_of kw ''headers'' = Some (PyDict d)"
  shows "putheader_wrapper e func args kw s =
           func args
             (AList.update ''headers''
                (PyDict (AList.update ''X-Amzn-Trace-Id'' (PyStr (patched_root e)) d)) kw)
             (s\<lparr>calls := calls s @ [Get_patched_root]\<rparr>)"
  using assms by (simp add: putheader_wrapper_def collab_def)

text \<open>
  C8. Line 107 is not inside \<^verbatim>\<open>lumigo_safe_execute\<close>, unlike the instrumentation of the
  three other wrappers. Without a \<^verbatim>\<open>headers\<close> keyword the wrapper raises \<^verbatim>\<open>KeyError\<close>,
  with \<^verbatim>\<open>headers=None\<close> it raises \<^verbatim>\<open>TypeError\<close>; in both cases the wrapped
  \<^verbatim>\<open>AWSRequest.__init__\<close> is not called.
\<close>

theorem putheader_raises:
  "putheader_wrapper example_env handler_ok [] example_request_kwargs fresh =
     (Inl (Exception ''KeyError''), fresh\<lparr>calls := [Get_patched_root]\<rparr>)
   \<and> putheader_wrapper example_env handler_ok [] ((''headers'', PyNone) # example_request_kwargs) fresh =
     (Inl (Exception ''TypeError''), fresh\<lparr>calls := [Get_patched_root]\<rparr>)
   \<and> handler_ok [] example_request_kwargs fresh = (Inr (PyStr ''ok''), fresh)"
  by (simp add: putheader_wrapper_def collab_def example_env_def example_request_kwargs_def
      fresh_def handler_ok_def)

section \<open>Properties of the Chalice adapter\<close>

text \<open>
  C9, as stated, fails outside AWS: there an allowlisted name is forwarded like any other.
\<close>

theorem allowlisted_name_forwarded_outside_aws:
  "''schedule'' \<in> set DECORATORS_OF_NEW_HANDLERS
   \<and> chalice_getattr (example_env\<lparr>is_aws_environment := False\<rparr>) example_getattribute
       example_adapter ''schedule'' = Inr (Original (Registration example_schedule))"
  by (simp add: DECORATORS_OF_NEW_HANDLERS_def chalice_getattr_def example_getattribute_def
      example_adapter_def LumigoChalice_def)

text \<open>
  What \<^verbatim>\<open>__getattr__\<close> gives when it is called.
\<close>

lemma getattr_outcomes:
  "(is_aws_environment e \<and> item \<in> set DECORATORS_OF_NEW_HANDLERS
      \<and> getattribute (app self) item = Inr (Registration g)
      \<and> g args kw = Inr d \<and> d func = Inr h \<longrightarrow>
      (\<exists>w dec. chalice_getattr e getattribute self item = Inr (Get_decorator w)
         \<and> w args kw = Inr dec
         \<and> dec func = Inr (LumigoChalice h (lumigo_conf_args self) (lumigo_conf_kwargs self))))
   \<and> (\<not> (is_aws_environment e \<and> item \<in> set DECORATORS_OF_NEW_HANDLERS) \<longrightarrow>
        chalice_getattr e getattribute self item =
          (case getattribute (app self) item of
             Inl x \<Rightarrow> Inl x
           | Inr a \<Rightarrow> Inr (Original a)))"
  by (auto simp add: chalice_getattr_def get_decorator_def wrapper2_def split: sum.splits)

text \<open>
  C9, amended. A name the adapter has itself (its attributes \<^verbatim>\<open>lumigo_conf_args\<close>,
  \<^verbatim>\<open>lumigo_conf_kwargs\<close>, \<^verbatim>\<open>app\<close>, \<^verbatim>\<open>original_app_attr_getter\<close>, \<^verbatim>\<open>lumigo_app\<close>,
  \<^verbatim>\<open>DECORATORS_OF_NEW_HANDLERS\<close>, its methods, and what it inherits from \<^verbatim>\<open>object\<close>) is
  served by the adapter and not forwarded. For any other name: when
  \<^verbatim>\<open>is_aws_environment()\<close> holds and the name is on the allowlist and the application has
  it, access gives \<^verbatim>\<open>get_decorator\<close>, which, called with the registration arguments and
  then applied to a handler, gives a new adapter around what Chalice's decorator made of
  the handler, with the configuration of this adapter; when the name is not on the
  allowlist, or \<^verbatim>\<open>is_aws_environment()\<close> does not hold, access gives what the
  application's own \<^verbatim>\<open>__getattribute__\<close> gives.
\<close>

theorem adapter_attribute_access:
  "(item \<in> set adapter_names \<union> inherited \<longrightarrow>
      attribute_access e inherited getattribute self item = Own item)
   \<and> (item \<notin> set adapter_names \<union> inherited
      \<and> is_aws_environment e \<and> item \<in> set DECORATORS_OF_NEW_HANDLERS
      \<and> getattribute (app self) item = Inr (Registration g)
      \<and> g args kw = Inr d \<and> d func = Inr h \<longrightarrow>
      (\<exists>w dec. attribute_access e inherited getattribute self item
                  = Via_getattr (Inr (Get_decorator w))
         \<and> w args kw = Inr dec
         \<and> dec func = Inr (LumigoChalice h (lumigo_conf_args self) (lumigo_conf_kwargs self))))
   \<and> (item \<notin> set adapter_names \<union> inherited
      \<and> \<not> (is_aws_environment e \<and> item \<in> set DECORATORS_OF_NEW_HANDLERS) \<longrightarrow>
        attribute_access e inherited getattribute self item =
          Via_getattr (case getattribute (app self) item of
                         Inl x \<Rightarrow> Inl x
                       | Inr a \<Rightarrow> Inr (Original a)))"
proof (intro conjI impI)
  assume "item \<in> set adapter_names \<union> inherited"
  then show "attribute_access e inherited getattribute self item = Own item"
    by (auto simp add: attribute_access_def)
next
  assume a: "item \<notin> set adapter_names \<union> inherited
      \<and> is_aws_environment e \<and> item \<in> set DECORATORS_OF_NEW_HANDLERS
      \<and> getattribute (app self) item = Inr (Registration g)
      \<and> g args kw = Inr d \<and> d func = Inr h"
  then have "attribute_access e inherited getattribute self item =
      Via_getattr (chalice_getattr e getattribute self item)"
    by (simp add: attribute_access_def)
  moreover from a have "\<exists>w dec. chalice_getattr e getattribute self item = Inr (Get_decorator w)
         \<and> w args kw = Inr dec
         \<and> dec func = Inr (LumigoChalice h (lumigo_conf_args self) (lumigo_conf_kwargs self))"
    using getattr_outcomes [of e item getattribute self g args kw d func h] by blast
  ultimately show "\<exists>w dec. attribute_access e inherited getattribute self item
                  = Via_getattr (Inr (Get_decorator w))
         \<and> w args kw = Inr dec
         \<and> dec func = Inr (LumigoChalice h (lumigo_conf_args self) (lumigo_conf_kwargs self))"
    by auto
next
  assume a: "item \<notin> set adapter_names \<union> inherited
      \<and> \<not> (is_aws_environment e \<and> item \<in> set DECORATORS_OF_NEW_HANDLERS)"
  then have "attribute_access e inherited getattribute self item =
      Via_getattr (chalice_getattr e getattribute self item)"
    by (simp add: attribute_access_def)
  moreover from a have "chalice_getattr e getattribute self item =
          (case getattribute (app self) item of
             Inl x \<Rightarrow> Inl x
           | Inr a \<Rightarrow> Inr (Original a))"
    using getattr_outcomes [of e item getattribute self] by blast
  ultimately show "attribute_access e inherited getattribute self item =
          Via_getattr (case getattribute (app self) item of
                         Inl x \<Rightarrow> Inl x
                       | Inr a \<Rightarrow> Inr (Original a))"
    by simp
qed

theorem adapter_attribute_access_witness:
  "attribute_access example_env example_inherited example_getattribute example_adapter ''app''
     = Own ''app''
   \<and> attribute_access example_env example_inherited example_getattribute example_adapter
       ''__class__'' = Own ''__class__''
   \<and> (\<exists>w dec. attribute_access example_env example_inherited example_getattribute
                example_adapter ''schedule'' = Via_getattr (Inr (Get_decorator w))
      \<and> w [PyStr ''rate(1 hour)''] [] = Inr dec
      \<and> dec ''handler'' = Inr (LumigoChalice ''scheduled:handler'' [] [(''token'', PyStr ''t_123'')]))
   \<and> attribute_access example_env example_inherited example_getattribute example_adapter
       ''app_name'' = Via_getattr (Inr (Original (Plain (PyStr ''app''))))
   \<and> attribute_access (example_env\<lparr>is_aws_environment := False\<rparr>) example_inherited
       example_getattribute example_adapter ''schedule''
       = Via_getattr (Inr (Original (Registration example_schedule)))"
  using adapter_attribute_access [of "''app''" example_inherited example_env example_getattribute
      example_adapter example_schedule "[]" "[]" "\<lambda>h. Inr (''scheduled:'' @ h)"
      "''handler''" "''scheduled:handler''"]
    adapter_attribute_access [of "''__class__''" example_inherited example_env example_getattribute
      example_adapter example_schedule "[]" "[]" "\<lambda>h. Inr (''scheduled:'' @ h)"
      "''handler''" "''scheduled:handler''"]
    adapter_attribute_access [of "''schedule''" example_inherited example_env example_getattribute
      example_adapter example_schedule "[PyStr ''rate(1 hour)'']" "[]"
      "\<lambda>h. Inr (''scheduled:'' @ h)" "''handler''" "''scheduled:handler''"]
    adapter_attribute_access [of "''app_name''" example_inherited example_env example_getattribute
      example_adapter example_schedule "[]" "[]" "\<lambda>h. Inr (''scheduled:'' @ h)"
      "''handler''" "''scheduled:handler''"]
    adapter_attribute_access [of "''schedule''" example_inherited
      "example_env\<lparr>is_aws_environment := False\<rparr>" example_getattribute
      example_adapter example_schedule "[]" "[]" "\<lambda>h. Inr (''scheduled:'' @ h)"
      "''handler''" "''scheduled:handler''"]
  by (simp add: example_env_def DECORATORS_OF_NEW_HANDLERS_def example_getattribute_def
      example_adapter_def LumigoChalice_def example_schedule_def adapter_names_def
      example_inherited_def)

end
